theory Spec2Isabelle
  imports Complex_Main "HOL-Library.Sublist"
begin

section \<open>Values, exceptions and configuration\<close>

text \<open>
  JSON-like Python values: request metadata (\<open>Dict[str, Any]\<close>), the bodies sent to the
  search engine and the payloads returned by the endpoints. A dict is an association list
  in insertion order. Floats are only carried around by this program (the query embedding,
  the scores of hits), never computed on.
\<close>

datatype jv =
    JNull
  | JBool bool
  | JInt int
  | JFloat real
  | JStr string
  | JList "jv list"
  | JObj "(string \<times> jv) list"

text \<open>
  Exceptions, each with its message (\<open>str(e)\<close>). \<open>External\<close> stands for any exception
  raised by a collaborator (the Elasticsearch client, the LangChain store, the embedding
  model, the Ollama binding, the QA chain).
\<close>

datatype exn =
    RuntimeError string
  | ValueError string
  | External string

fun str_exn :: "exn \<Rightarrow> string" where
  "str_exn (RuntimeError m) = m"
| "str_exn (ValueError m) = m"
| "str_exn (External m) = m"

text \<open>The module-level settings read from the process environment.\<close>

record config =
  ES_URL :: string
  ES_INDEX :: string
  OLLAMA_BASE_URL :: string
  BULK_BATCH_SIZE :: int
  EMBED_DIM :: int

section \<open>API models\<close>

datatype Document = Document string "(string \<times> jv) list"

record DocumentInput =
  doc_id :: "string option"
  page_content :: string
  metadata :: "(string \<times> jv) list option"

record DocumentInputIndex = DocumentInput +
  index :: string

record BulkDocumentInput =
  documents :: "DocumentInput list"
  bulk_index :: string

record QueryInput =
  query :: string
  k :: "int option"
  q_index :: string
  model :: string
  filter_metadata :: "(string \<times> jv) list option"

text \<open>
  A hit of a search reply: \<open>_id\<close>, \<open>_score\<close> and the optional \<open>_source\<close> (read with
  \<open>h.get("_source")\<close>). Search replies are taken in the shape the engine's client gives
  them, a list of such hits under \<open>hits.hits\<close>.
\<close>

record hit =
  hit_id :: string
  hit_score :: jv
  hit_source :: "jv option"

section \<open>Collaborators and effects\<close>

text \<open>
  Every call the program makes to a collaborator is an event; the history is the list of
  events issued so far. A collaborator's reply may depend on the whole history (the
  engine is stateful), and is either an exception or a value. The events, with the reply
  each one gets:
  \<^item> \<open>IndicesExists index\<close>: \<open>es_client.indices.exists(index=...)\<close>, a truth value;
  \<^item> \<open>Info\<close>: \<open>es_client.info()\<close>, read at \<open>['version']['number']\<close>, the version string;
  \<^item> \<open>IndicesCreate index body\<close>: \<open>es_client.indices.create(index=..., body=...)\<close>;
  \<^item> \<open>Exists index id\<close>: \<open>es_client.exists(index=..., id=...)\<close>, a truth value;
  \<^item> \<open>Search index body\<close>: \<open>es_client.search(index=..., body=...)\<close>, the hits;
  \<^item> \<open>NewStore es_url index_name\<close>: the constructor \<open>ElasticsearchStore(...)\<close> with the
    module's embedding model;
  \<^item> \<open>AddDocuments index docs ids\<close>: \<open>vector_store.add_documents(docs, ids=...)\<close> on the
    store bound to \<open>index\<close>, which embeds the documents and writes them;
  \<^item> \<open>NewLLM model base_url\<close>: the constructor \<open>Ollama(...)\<close>;
  \<^item> \<open>AsRetriever index k\<close>: \<open>vector_store.as_retriever(search_kwargs={"k": k})\<close>;
  \<^item> \<open>FromChainType model index\<close>: \<open>RetrievalQA.from_chain_type(...)\<close> over that model and
    that retriever;
  \<^item> \<open>EmbedQuery text\<close>: \<open>embedding_model.embed_query(text)\<close>, the vector;
  \<^item> \<open>Invoke model index k text\<close>: \<open>qa.invoke(text)\<close> on the chain over that model and the
    retriever of that index with \<open>k\<close>, read at \<open>["result"]\<close>, the answer.

  Output written with \<open>print\<close> is not part of the model.
\<close>

datatype event =
    IndicesExists string
  | Info
  | IndicesCreate string jv
  | Exists string string
  | Search string jv
  | NewStore string string
  | AddDocuments string "Document list" "string option list option"
  | NewLLM string string
  | AsRetriever string int
  | FromChainType string string
  | EmbedQuery string
  | Invoke string string int string

record env =
  es_indices_exists :: "event list \<Rightarrow> string \<Rightarrow> exn + bool"
  es_info :: "event list \<Rightarrow> exn + string"
  es_indices_create :: "event list \<Rightarrow> string \<Rightarrow> jv \<Rightarrow> exn + unit"
  es_exists :: "event list \<Rightarrow> string \<Rightarrow> string \<Rightarrow> exn + bool"
  es_search :: "event list \<Rightarrow> string \<Rightarrow> jv \<Rightarrow> exn + hit list"
  new_store :: "event list \<Rightarrow> string \<Rightarrow> string \<Rightarrow> exn + unit"
  add_documents :: "event list \<Rightarrow> string \<Rightarrow> Document list \<Rightarrow> string option list option \<Rightarrow> exn + unit"
  new_llm :: "event list \<Rightarrow> string \<Rightarrow> string \<Rightarrow> exn + unit"
  as_retriever :: "event list \<Rightarrow> string \<Rightarrow> int \<Rightarrow> exn + unit"
  from_chain_type :: "event list \<Rightarrow> string \<Rightarrow> string \<Rightarrow> exn + unit"
  embed_query :: "event list \<Rightarrow> string \<Rightarrow> exn + real list"
  qa_invoke :: "event list \<Rightarrow> string \<Rightarrow> string \<Rightarrow> int \<Rightarrow> string \<Rightarrow> exn + string"

text \<open>
  A computation takes the history and returns its outcome (an exception or a value) with
  the extended history.
\<close>

type_synonym 'a comp = "event list \<Rightarrow> (exn + 'a) \<times> event list"

definition ret :: "'a \<Rightarrow> 'a comp" where
  "ret a h = (Inr a, h)"

definition raise :: "exn \<Rightarrow> 'a comp" where
  "raise e h = (Inl e, h)"

definition bnd :: "'a comp \<Rightarrow> ('a \<Rightarrow> 'b comp) \<Rightarrow> 'b comp" where
  "bnd m f h = (case m h of (Inl e, h') \<Rightarrow> (Inl e, h') | (Inr a, h') \<Rightarrow> f a h')"

definition try_except :: "'a comp \<Rightarrow> (exn \<Rightarrow> 'a comp) \<Rightarrow> 'a comp" where
  "try_except m handler h =
     (case m h of (Inl e, h') \<Rightarrow> handler e h' | (Inr a, h') \<Rightarrow> (Inr a, h'))"

definition call :: "event \<Rightarrow> (event list \<Rightarrow> exn + 'a) \<Rightarrow> 'a comp" where
  "call ev reply h = (reply h, h @ [ev])"

section \<open>Helper functions\<close>

subsection \<open>\<open>clean_metadata\<close>\<close>

definition clean_metadata :: "(string \<times> jv) list option \<Rightarrow> (string \<times> jv) list" where
  "clean_metadata md =
     (if md = None \<or> md = Some [] then []
      else filter (\<lambda>(k, v). v \<noteq> JNull) (the md))"

text \<open>The items of an optional mapping, an absent mapping having none.\<close>

definition items :: "(string \<times> jv) list option \<Rightarrow> (string \<times> jv) list" where
  "items md = (case md of None \<Rightarrow> [] | Some kvs \<Rightarrow> kvs)"

subsection \<open>Python built-ins used by the provisioner\<close>

text \<open>
  Strings are lists of characters taken as code points below 256.

  \<open>repr(s)\<close> of a string: double quotes when the string has a single quote and no double
  quote, single quotes otherwise; the quote and the backslash are escaped with a backslash,
  tab, newline and carriage return as \<open>\t\<close>, \<open>\n\<close>, \<open>\r\<close>, and every other character that
  is not printable (below \<open>0x20\<close>, from \<open>0x7f\<close> to \<open>0xa0\<close>, and \<open>0xad\<close>) as \<open>\xhh\<close>.
\<close>

definition hex_digit :: "nat \<Rightarrow> char" where
  "hex_digit n = (if n < 16 then ''0123456789abcdef'' ! n else CHR ''?'')"

definition printable :: "char \<Rightarrow> bool" where
  "printable c =
     (let n = (of_char c :: nat) in 0x20 \<le> n \<and> (n < 0x7F \<or> 0xA0 < n) \<and> n \<noteq> 0xAD)"

definition escape :: "char \<Rightarrow> char \<Rightarrow> string" where
  "escape q c =
     (if c = q \<or> c = CHR 0x5C then [CHR 0x5C, c]
      else if c = CHR 0x09 then [CHR 0x5C, CHR ''t'']
      else if c = CHR 0x0A then [CHR 0x5C, CHR ''n'']
      else if c = CHR 0x0D then [CHR 0x5C, CHR ''r'']
      else if printable c then [c]
      else [CHR 0x5C, CHR ''x'', hex_digit (of_char c div 16), hex_digit (of_char c mod 16)])"

definition py_repr :: "string \<Rightarrow> string" where
  "py_repr s =
     (let q = (if CHR 0x27 \<in> set s \<and> CHR 0x22 \<notin> set s then CHR 0x22 else CHR 0x27)
      in q # concat (map (escape q) s) @ [q])"

text \<open>The decimal digits of a natural number.\<close>

function show_nat :: "nat \<Rightarrow> string" where
  "show_nat n =
     (if n < 10 then [char_of (48 + n)] else show_nat (n div 10) @ [char_of (48 + n mod 10)])"
  by pat_completeness auto
termination
  by (relation "measure id") auto

declare show_nat.simps [simp del]

text \<open>
  \<open>int(s)\<close> on a string, base 10. Whitespace is stripped at both ends (tab to carriage
  return, space, \<open>0x85\<close> and \<open>0xa0\<close>; the separators \<open>0x1c\<close> to \<open>0x1f\<close> are not stripped).
  One sign is allowed. Then comes the longest run of digits and underscores: it must
  start and end with a digit and have no two underscores in a row. A run of more than
  \<open>int_max_str_digits\<close> digits is refused, before anything that follows the run is looked
  at. Nothing may follow the run. The message of an invalid literal carries the first 200
  characters of the \<open>repr\<close> of the string.
\<close>

definition is_space :: "char \<Rightarrow> bool" where
  "is_space c = (of_char c \<in> set [0x09, 0x0A, 0x0B, 0x0C, 0x0D, 0x20, 0x85, 0xA0 :: nat])"

definition is_digit :: "char \<Rightarrow> bool" where
  "is_digit c = (48 \<le> (of_char c :: nat) \<and> (of_char c :: nat) \<le> 57)"

definition digit_val :: "char \<Rightarrow> int" where
  "digit_val c = int (of_char c) - 48"

definition strip :: "string \<Rightarrow> string" where
  "strip s = rev (dropWhile is_space (rev (dropWhile is_space s)))"

fun double_underscore :: "string \<Rightarrow> bool" where
  "double_underscore (a # b # cs) = ((a = CHR ''_'' \<and> b = CHR ''_'') \<or> double_underscore (b # cs))"
| "double_underscore cs = False"

text \<open>The interpreter's default limit, which the program does not change.\<close>

definition int_max_str_digits :: nat where
  "int_max_str_digits = 4300"

definition invalid_literal :: "string \<Rightarrow> exn" where
  "invalid_literal s =
     ValueError (''invalid literal for int() with base 10: '' @ take 200 (py_repr s))"

definition exceeds_limit :: "nat \<Rightarrow> exn" where
  "exceeds_limit n =
     ValueError (''Exceeds the limit ('' @ show_nat int_max_str_digits
       @ '' digits) for integer string conversion: value has '' @ show_nat n
       @ '' digits; use sys.set_int_max_str_digits() to increase the limit'')"

definition py_int :: "string \<Rightarrow> exn + int" where
  "py_int s =
     (let t = strip s;
          signed = (t \<noteq> [] \<and> (hd t = CHR ''-'' \<or> hd t = CHR ''+''));
          u = (if signed then tl t else t);
          run = takeWhile (\<lambda>c. is_digit c \<or> c = CHR ''_'') u;
          rest = dropWhile (\<lambda>c. is_digit c \<or> c = CHR ''_'') u;
          digits = filter is_digit run;
          v = foldl (\<lambda>a c. 10 * a + digit_val c) 0 digits
      in if run = [] \<or> hd run = CHR ''_'' \<or> last run = CHR ''_'' \<or> double_underscore run
         then Inl (invalid_literal s)
         else if length digits > int_max_str_digits then Inl (exceeds_limit (length digits))
         else if rest \<noteq> [] then Inl (invalid_literal s)
         else Inr (if signed \<and> hd t = CHR ''-'' then - v else v))"

text \<open>\<open>version.split('.')[0]\<close>: the text before the first dot (all of it when there is none).\<close>

definition split_dot_first :: "string \<Rightarrow> string" where
  "split_dot_first version = takeWhile (\<lambda>c. c \<noteq> CHR ''.'') version"

text \<open>Truthiness of an optional string (\<open>None\<close> and \<open>""\<close> are falsy) and of an optional dict.\<close>

definition truthy :: "'a list option \<Rightarrow> bool" where
  "truthy v = (case v of None \<Rightarrow> False | Some xs \<Rightarrow> xs \<noteq> [])"

subsection \<open>\<open>create_index_if_not_exists\<close>\<close>

definition metadata_property :: "string \<times> jv" where
  "metadata_property =
     (''metadata'', JObj [(''type'', JStr ''object''), (''enabled'', JBool True), (''dynamic'', JBool False)])"

text \<open>
  \<open>mapping_template\<close> after \<open>mapping_template["mappings"]["properties"]["vector"] = v\<close>: the
  new key comes after \<open>metadata\<close>.
\<close>

definition mapping_template :: "jv \<Rightarrow> jv" where
  "mapping_template v =
     JObj [(''mappings'', JObj [(''properties'', JObj [metadata_property, (''vector'', v)])])]"

definition dense_vector :: "int \<Rightarrow> jv" where
  "dense_vector dimn = JObj [(''type'', JStr ''dense_vector''), (''dims'', JInt dimn)]"

definition knn_vector :: "int \<Rightarrow> jv" where
  "knn_vector dimn =
     JObj [(''type'', JStr ''knn_vector''), (''dimension'', JInt dimn),
           (''method'', JObj [(''name'', JStr ''hnsw''), (''space_type'', JStr ''cosinesimil''),
                              (''engine'', JStr ''nmslib'')])]"

definition create_index_if_not_exists :: "env \<Rightarrow> string \<Rightarrow> int \<Rightarrow> unit comp" where
  "create_index_if_not_exists env index_name dimn =
     bnd (call (IndicesExists index_name) (\<lambda>h. es_indices_exists env h index_name)) (\<lambda>present.
       if present then ret ()
       else
         try_except
           (bnd (call Info (es_info env)) (\<lambda>version.
            bnd (\<lambda>h. (py_int (split_dot_first version), h)) (\<lambda>major_version.
            bnd (if major_version \<ge> 8 then ret (mapping_template (dense_vector dimn))
                 else if major_version = 7 then ret (mapping_template (knn_vector dimn))
                 else raise (RuntimeError (''Unsupported Elasticsearch version: '' @ version))) (\<lambda>body.
            call (IndicesCreate index_name body) (\<lambda>h. es_indices_create env h index_name body)))))
           (\<lambda>e. raise (RuntimeError (''Failed to create index: '' @ str_exn e))))"

section \<open>Endpoints\<close>

subsection \<open>\<open>add_document\<close>\<close>

definition add_document :: "env \<Rightarrow> config \<Rightarrow> DocumentInputIndex \<Rightarrow> jv comp" where
  "add_document env cfg doc =
     bnd (call (NewStore (ES_URL cfg) (index doc)) (\<lambda>h. new_store env h (ES_URL cfg) (index doc))) (\<lambda>_.
     bnd (create_index_if_not_exists env (index doc) (EMBED_DIM cfg)) (\<lambda>_.
     bnd (if truthy (doc_id doc)
          then call (Exists (index doc) (the (doc_id doc)))
                 (\<lambda>h. es_exists env h (index doc) (the (doc_id doc)))
          else ret False) (\<lambda>present.
       if present then ret (JObj [(''status'', JStr ''skipped''), (''reason'', JStr ''exists'')])
       else
         let cleaned_meta = clean_metadata (metadata doc);
             lc_doc = Document (page_content doc) cleaned_meta;
             ids = (if truthy (doc_id doc) then Some [doc_id doc] else None)
         in bnd (call (AddDocuments (index doc) [lc_doc] ids)
                   (\<lambda>h. add_documents env h (index doc) [lc_doc] ids)) (\<lambda>_.
            ret (JObj [(''status'', JStr ''ok'')])))))"

subsection \<open>\<open>add_documents_bulk\<close>\<close>

text \<open>\<open>ids=[i for i in ids_batch] if any(ids_batch) else None\<close>\<close>

definition ids_arg :: "string option list \<Rightarrow> string option list option" where
  "ids_arg ids_batch = (if list_ex truthy ids_batch then Some ids_batch else None)"

text \<open>
  The loop over \<open>docs\<close>, with the loop state \<open>(batch, ids_batch, added)\<close>.
\<close>

fun bulk_loop ::
  "env \<Rightarrow> config \<Rightarrow> string \<Rightarrow> DocumentInput list
     \<Rightarrow> Document list \<times> string option list \<times> int
     \<Rightarrow> (Document list \<times> string option list \<times> int) comp" where
  "bulk_loop env cfg idx [] st = ret st"
| "bulk_loop env cfg idx (d # ds) st =
     bnd (if truthy (doc_id d)
          then call (Exists idx (the (doc_id d))) (\<lambda>h. es_exists env h idx (the (doc_id d)))
          else ret False) (\<lambda>present.
       if present then bulk_loop env cfg idx ds st
       else
         let cleaned_meta = clean_metadata (metadata d);
             batch = fst st @ [Document (page_content d) cleaned_meta];
             ids_batch = fst (snd st) @ [if truthy (doc_id d) then doc_id d else None];
             added = snd (snd st)
         in if int (length batch) \<ge> BULK_BATCH_SIZE cfg
            then bnd (call (AddDocuments idx batch (ids_arg ids_batch))
                        (\<lambda>h. add_documents env h idx batch (ids_arg ids_batch))) (\<lambda>_.
                 bulk_loop env cfg idx ds ([], [], added + int (length batch)))
            else bulk_loop env cfg idx ds (batch, ids_batch, added))"

definition add_documents_bulk :: "env \<Rightarrow> config \<Rightarrow> BulkDocumentInput \<Rightarrow> jv comp" where
  "add_documents_bulk env cfg payload =
     bnd (call (NewStore (ES_URL cfg) (bulk_index payload))
            (\<lambda>h. new_store env h (ES_URL cfg) (bulk_index payload))) (\<lambda>_.
     bnd (create_index_if_not_exists env (bulk_index payload) (EMBED_DIM cfg)) (\<lambda>_.
       let docs = documents payload; n = length docs
       in if n = 0 then ret (JObj [(''status'', JStr ''no_docs'')])
          else
            bnd (bulk_loop env cfg (bulk_index payload) docs ([], [], 0)) (\<lambda>st.
              let batch = fst st; ids_batch = fst (snd st); added = snd (snd st)
              in bnd (if batch \<noteq> []
                      then bnd (call (AddDocuments (bulk_index payload) batch (ids_arg ids_batch))
                                  (\<lambda>h. add_documents env h (bulk_index payload) batch (ids_arg ids_batch)))
                             (\<lambda>_. ret (added + int (length batch)))
                      else ret added) (\<lambda>added.
                 ret (JObj [(''status'', JStr ''ok''), (''added'', JInt added)])))))"

subsection \<open>\<open>search_rag\<close>\<close>

text \<open>The body of the \<open>try\<close> block that binds the store, the model and the QA chain.\<close>

definition search_setup :: "env \<Rightarrow> config \<Rightarrow> QueryInput \<Rightarrow> unit comp" where
  "search_setup env cfg q =
     bnd (call (NewStore (ES_URL cfg) (q_index q)) (\<lambda>h. new_store env h (ES_URL cfg) (q_index q))) (\<lambda>_.
     bnd (call (NewLLM (model q) (OLLAMA_BASE_URL cfg))
            (\<lambda>h. new_llm env h (model q) (OLLAMA_BASE_URL cfg))) (\<lambda>_.
     bnd (call (AsRetriever (q_index q) 5) (\<lambda>h. as_retriever env h (q_index q) 5)) (\<lambda>_.
     call (FromChainType (model q) (q_index q)) (\<lambda>h. from_chain_type env h (model q) (q_index q)))))"

fun must_clauses :: "(string \<times> jv) list \<Rightarrow> jv list" where
  "must_clauses [] = []"
| "must_clauses ((key, val) # rest) =
     (if val = JNull then must_clauses rest
      else (case val of
              JList vs \<Rightarrow> JObj [(''terms'', JObj [(''metadata.'' @ key, val)])]
            | _ \<Rightarrow> JObj [(''term'', JObj [(''metadata.'' @ key, JObj [(''value'', val)])])])
           # must_clauses rest)"

definition filter_body :: "jv list \<Rightarrow> jv" where
  "filter_body clauses =
     JObj [(''size'', JInt 1000), (''_source'', JBool False),
           (''query'', JObj [(''bool'', JObj [(''filter'', JList clauses)])])]"

definition ids_query :: "string list \<Rightarrow> jv" where
  "ids_query ids = JObj [(''ids'', JObj [(''values'', JList (map JStr ids))])]"

definition knn_body :: "real list \<Rightarrow> int \<Rightarrow> string list \<Rightarrow> jv" where
  "knn_body query_embedding kk ids =
     JObj [(''knn'', JObj [(''field'', JStr ''vector''),
                          (''query_vector'', JList (map JFloat query_embedding)),
                          (''k'', JInt kk), (''num_candidates'', JInt 100)]),
           (''query'', ids_query ids)]"

definition script_source :: string where
  "script_source =
     ''cosineSimilarity(params.q, '' @ [CHR 0x27] @ ''embedding'' @ [CHR 0x27] @ '') + 1.0''"

definition script_body :: "real list \<Rightarrow> int \<Rightarrow> string list \<Rightarrow> jv" where
  "script_body query_embedding kk ids =
     JObj [(''size'', JInt kk),
           (''query'', JObj [(''script_score'',
              JObj [(''query'', ids_query ids),
                    (''script'', JObj [(''source'', JStr script_source),
                                      (''params'', JObj [(''q'', JList (map JFloat query_embedding))])])])])]"

definition results_of :: "hit list \<Rightarrow> jv" where
  "results_of hits =
     JList (map (\<lambda>h. JObj [(''id'', JStr (hit_id h)), (''score'', hit_score h),
                           (''source'', (case hit_source h of None \<Rightarrow> JNull | Some s \<Rightarrow> s))]) hits)"

text \<open>
  The part of \<open>search_rag\<close> after the \<open>try\<close> block, with \<open>kk\<close> for \<open>q.k or 5\<close>. The
  assignment to \<open>retriever.search_kwargs\<close> changes the retriever the chain holds, so the
  chain is invoked with that \<open>k\<close>.
\<close>

definition search_after_setup :: "env \<Rightarrow> config \<Rightarrow> QueryInput \<Rightarrow> jv comp" where
  "search_after_setup env cfg q =
     (let kk = (case k q of None \<Rightarrow> 5 | Some n \<Rightarrow> if n = 0 then 5 else n)
      in if truthy (filter_metadata q) then
           let body = filter_body (must_clauses (the (filter_metadata q)))
           in bnd (call (Search (ES_INDEX cfg) body) (\<lambda>h. es_search env h (ES_INDEX cfg) body)) (\<lambda>res.
                let ids = map hit_id res
                in if ids = [] then
                     ret (JObj [(''query'', JStr (query q)), (''results'', JList []),
                                (''note'', JStr ''no docs after filter'')])
                   else
                     bnd (call (EmbedQuery (query q)) (\<lambda>h. embed_query env h (query q))) (\<lambda>query_embedding.
                       try_except
                         (bnd (call (Search (ES_INDEX cfg) (knn_body query_embedding kk ids))
                                 (\<lambda>h. es_search env h (ES_INDEX cfg) (knn_body query_embedding kk ids))) (\<lambda>hits.
                            ret (JObj [(''query'', JStr (query q)), (''results'', results_of hits)])))
                         (\<lambda>_.
                            bnd (call (Search (ES_INDEX cfg) (script_body query_embedding kk ids))
                                   (\<lambda>h. es_search env h (ES_INDEX cfg) (script_body query_embedding kk ids))) (\<lambda>hits.
                              ret (JObj [(''query'', JStr (query q)), (''results'', results_of hits)])))))
         else
           bnd (call (Invoke (model q) (q_index q) kk (query q))
                  (\<lambda>h. qa_invoke env h (model q) (q_index q) kk (query q))) (\<lambda>answer.
             ret (JObj [(''query'', JStr (query q)), (''answer'', JStr answer)])))"

definition search_rag :: "env \<Rightarrow> config \<Rightarrow> QueryInput \<Rightarrow> jv comp" where
  "search_rag env cfg q h =
     (case search_setup env cfg q h of
        (Inl e, h') \<Rightarrow> (Inr (JObj [(''msg'', JStr (str_exn e))]), h')
      | (Inr _, h') \<Rightarrow> search_after_setup env cfg q h')"

section \<open>Reading histories\<close>

text \<open>Kinds of events.\<close>

fun is_document_op :: "event \<Rightarrow> bool" where
  "is_document_op (Exists idx i) = True"
| "is_document_op (AddDocuments idx docs ids) = True"
| "is_document_op _ = False"

text \<open>
  The embedding model is run by \<open>embed_query\<close> and, inside the store, by
  \<open>add_documents\<close>; the language model is run by invoking the chain. Constructing the
  store, the model binding, the retriever and the chain runs neither.
\<close>

fun is_embedding :: "event \<Rightarrow> bool" where
  "is_embedding (EmbedQuery t) = True"
| "is_embedding (AddDocuments idx docs ids) = True"
| "is_embedding _ = False"

fun is_generation :: "event \<Rightarrow> bool" where
  "is_generation (Invoke m idx n t) = True"
| "is_generation _ = False"

fun is_write :: "event \<Rightarrow> bool" where
  "is_write (AddDocuments idx docs ids) = True"
| "is_write (IndicesCreate idx body) = True"
| "is_write _ = False"

fun search_index :: "event \<Rightarrow> string option" where
  "search_index (Search idx body) = Some idx"
| "search_index _ = None"

text \<open>The (document, id) pairs of a store write; a write without ids leaves every id to the store.\<close>

fun write_pairs :: "event \<Rightarrow> (Document \<times> string option) list" where
  "write_pairs (AddDocuments idx docs ids) =
     zip docs (case ids of None \<Rightarrow> replicate (length docs) None | Some l \<Rightarrow> l)"
| "write_pairs _ = []"

text \<open>A store write is aligned when its id list, if it has one, is as long as its document list.\<close>

fun aligned :: "event \<Rightarrow> bool" where
  "aligned (AddDocuments idx docs ids) = (case ids of None \<Rightarrow> True | Some l \<Rightarrow> length l = length docs)"
| "aligned _ = True"

text \<open>
  What the bulk loop appends to \<open>batch\<close> and to \<open>ids_batch\<close> for a record it keeps: the
  document, and \<open>d.doc_id if d.doc_id else None\<close>.
\<close>

definition batched_pair :: "DocumentInput \<Rightarrow> Document \<times> string option" where
  "batched_pair d =
     (Document (page_content d) (clean_metadata (metadata d)),
      if truthy (doc_id d) then doc_id d else None)"

text \<open>
  A record as it was submitted: the document it asks to be stored (its content with the
  cleaned metadata), with its own id, whatever that id is.
\<close>

definition submitted_pair :: "DocumentInput \<Rightarrow> Document \<times> string option" where
  "submitted_pair d = (Document (page_content d) (clean_metadata (metadata d)), doc_id d)"

text \<open>
  The ids held in \<open>ids_batch\<close> are absent or non-empty.
\<close>

definition id_list_ok :: "string option list \<Rightarrow> bool" where
  "id_list_ok ids = list_all (\<lambda>i. i = None \<or> truthy i) ids"

text \<open>
  The outcome \<open>out\<close> of the bulk loop started in the history \<open>h\<close>, read against a list
  \<open>ref\<close> of (document, id) pairs and a count \<open>added\<close>: the loop only extends the history,
  every write it issues is aligned, and the pairs it wrote, followed by the pairs still
  held in the batch when it returns, are in order among \<open>ref\<close>; the count has grown by
  the number of pairs written.
\<close>

definition loop_post ::
  "(Document \<times> string option) list \<Rightarrow> int \<Rightarrow> event list
     \<Rightarrow> (exn + Document list \<times> string option list \<times> int) \<times> event list \<Rightarrow> bool" where
  "loop_post ref added h out =
     (\<exists>new. snd out = h @ new \<and> list_all aligned new
        \<and> (case fst out of
             Inl e \<Rightarrow> subseq (concat (map write_pairs new)) ref
           | Inr st' \<Rightarrow>
               length (fst st') = length (fst (snd st')) \<and> id_list_ok (fst (snd st'))
               \<and> subseq (concat (map write_pairs new) @ zip (fst st') (fst (snd st'))) ref
               \<and> snd (snd st') = added + int (length (concat (map write_pairs new)))))"

fun writes_id :: "string \<Rightarrow> string \<Rightarrow> event \<Rightarrow> bool" where
  "writes_id idx i (AddDocuments idx' docs ids) =
     (idx' = idx \<and> (case ids of None \<Rightarrow> False | Some l \<Rightarrow> Some i \<in> set l))"
| "writes_id idx i _ = False"

definition writes_under :: "string \<Rightarrow> string \<Rightarrow> event list \<Rightarrow> nat" where
  "writes_under idx i h = length (filter (writes_id idx i) h)"

fun creates_index :: "string \<Rightarrow> event \<Rightarrow> bool" where
  "creates_index idx (IndicesCreate idx' body) = (idx' = idx)"
| "creates_index idx _ = False"

section \<open>A simulated deployment\<close>

text \<open>
  The defaults of the module-level settings, and a simulated set of collaborators on
  which the endpoints can be run: an engine of a given version that remembers the indices
  created and the ids written, and answers searches by a given function of the body.
\<close>

definition default_config :: config where
  "default_config =
     \<lparr>ES_URL = ''http://elasticsearch:9200'', ES_INDEX = ''rag_documents'',
      OLLAMA_BASE_URL = ''http://host.docker.internal:11434'',
      BULK_BATCH_SIZE = 500, EMBED_DIM = 768\<rparr>"

definition sim_env :: "string \<Rightarrow> (jv \<Rightarrow> exn + hit list) \<Rightarrow> env" where
  "sim_env version search_reply =
     \<lparr>es_indices_exists = (\<lambda>h idx. Inr (list_ex (creates_index idx) h)),
      es_info = (\<lambda>h. Inr version),
      es_indices_create = (\<lambda>h idx body. Inr ()),
      es_exists = (\<lambda>h idx i. Inr (0 < writes_under idx i h)),
      es_search = (\<lambda>h idx body. search_reply body),
      new_store = (\<lambda>h url idx. Inr ()),
      add_documents = (\<lambda>h idx docs ids. Inr ()),
      new_llm = (\<lambda>h m url. Inr ()),
      as_retriever = (\<lambda>h idx n. Inr ()),
      from_chain_type = (\<lambda>h m idx. Inr ()),
      embed_query = (\<lambda>h t. Inr [1 / 2, 1 / 4]),
      qa_invoke = (\<lambda>h m idx n t. Inr ''generated answer'')\<rparr>"

text \<open>
  A search reply: the given candidates for any body but an approximate (\<open>knn\<close>) one, which
  is answered with the candidates too when the engine supports it, and fails otherwise.
\<close>

definition sim_search :: "hit list \<Rightarrow> bool \<Rightarrow> jv \<Rightarrow> exn + hit list" where
  "sim_search cands ann body =
     (case body of
        JObj ((key, v) # rest) \<Rightarrow>
          if key = ''knn'' \<and> \<not> ann then Inl (External ''unknown key [knn]'') else Inr cands
      | _ \<Rightarrow> Inr cands)"

text \<open>Sample inputs: a filtered query against an index other than the default one, and a hit.\<close>

definition q_cats :: QueryInput where
  "q_cats = \<lparr>query = ''cats'', k = Some 2, q_index = ''other'', model = ''llama3.1:8b'',
             filter_metadata = Some [(''lang'', JStr ''en'')]\<rparr>"


definition hit_a :: hit where
  "hit_a = \<lparr>hit_id = ''a'', hit_score = JFloat 1, hit_source = None\<rparr>"

text \<open>
  Sample records for ingestion: one with an id, the same content with an empty id, and a
  bulk payload of three records of which the second has no id.
\<close>

definition doc_cats :: DocumentInputIndex where
  "doc_cats = \<lparr>doc_id = Some ''d1'', page_content = ''cats purr'',
                metadata = Some [(''lang'', JStr ''en''), (''rating'', JNull)], index = ''docs''\<rparr>"

definition doc_empty_id :: DocumentInputIndex where
  "doc_empty_id = \<lparr>doc_id = Some [], page_content = ''cats purr'',
                    metadata = Some [(''lang'', JStr ''en''), (''rating'', JNull)], index = ''docs''\<rparr>"

definition bulk_three :: BulkDocumentInput where
  "bulk_three =
     \<lparr>documents =
        [\<lparr>doc_id = Some ''d1'', page_content = ''cats purr'', metadata = Some [(''lang'', JStr ''en'')]\<rparr>,
         \<lparr>doc_id = None, page_content = ''dogs bark'', metadata = None\<rparr>,
         \<lparr>doc_id = Some ''d3'', page_content = ''cows moo'', metadata = Some [(''rating'', JNull)]\<rparr>],
      bulk_index = ''docs''\<rparr>"

text \<open>A bulk payload of one record whose id is the empty string.\<close>

definition bulk_empty_id :: BulkDocumentInput where
  "bulk_empty_id =
     \<lparr>documents =
        [\<lparr>doc_id = Some [], page_content = ''cats purr'', metadata = Some [(''lang'', JStr ''en'')]\<rparr>],
      bulk_index = ''docs''\<rparr>"

text \<open>
  An engine search in which only one index holds documents, all of them candidates of
  every query sent to it.
\<close>

definition sim_search_by_index ::
  "string \<Rightarrow> hit list \<Rightarrow> event list \<Rightarrow> string \<Rightarrow> jv \<Rightarrow> exn + hit list" where
  "sim_search_by_index holder cands h idx body = (if idx = holder then Inr cands else Inr [])"


section \<open>Properties\<close>

subsection \<open>Metadata sanitizer\<close>

lemma clean_metadata_filter:
  "clean_metadata m = filter (\<lambda>kv. snd kv \<noteq> JNull) (items m)"
  by (cases m) (auto simp: clean_metadata_def items_def case_prod_unfold)

text \<open>
  C8. For every metadata mapping \<open>m\<close>, absent input included, \<open>clean_metadata m\<close> is a
  plain value (the function has no failing branch); it has no null value; its items are
  exactly the items of \<open>m\<close> whose value is not null, in the order of \<open>m\<close>; and cleaning
  twice is cleaning once.
\<close>

theorem clean_metadata_sanitize:
  "(\<forall>kv \<in> set (clean_metadata m). snd kv \<noteq> JNull)
   \<and> set (clean_metadata m) = {kv \<in> set (items m). snd kv \<noteq> JNull}
   \<and> subseq (clean_metadata m) (items m)
   \<and> clean_metadata m = filter (\<lambda>kv. snd kv \<noteq> JNull) (items m)
   \<and> clean_metadata (Some (clean_metadata m)) = clean_metadata m"
proof -
  note e = clean_metadata_filter [of m]
  have a: "\<forall>kv \<in> set (clean_metadata m). snd kv \<noteq> JNull"
    by (simp add: clean_metadata_filter)
  have b: "set (clean_metadata m) = {kv \<in> set (items m). snd kv \<noteq> JNull}"
    by (auto simp: clean_metadata_filter)
  have c: "subseq (clean_metadata m) (items m)"
    by (simp add: clean_metadata_filter)
  have d: "clean_metadata (Some (clean_metadata m)) = clean_metadata m"
    by (simp add: clean_metadata_filter items_def)
  from a b c d e show ?thesis by blast
qed

theorem clean_metadata_sanitize_witness:
  "clean_metadata (Some [(''lang'', JStr ''en''), (''rating'', JNull)]) = [(''lang'', JStr ''en'')]
   \<and> clean_metadata (Some (clean_metadata (Some [(''lang'', JStr ''en''), (''rating'', JNull)])))
       = [(''lang'', JStr ''en'')]
   \<and> clean_metadata None = []"
  using clean_metadata_sanitize [of "Some [(''lang'', JStr ''en''), (''rating'', JNull)]"]
  by (simp add: clean_metadata_def items_def)

subsection \<open>Index provisioner\<close>

lemma py_int_examples:
  "py_int (split_dot_first ''8.11.0'') = Inr 8"
  "py_int (split_dot_first ''7.10.2'') = Inr 7"
  "py_int (split_dot_first ''6.8.0'') = Inr 6"
  by (simp_all add: py_int_def split_dot_first_def strip_def is_space_def is_digit_def digit_val_def
        int_max_str_digits_def)

text \<open>
  A version string that \<open>int\<close> refuses: a leading separator character is not whitespace
  to it.
\<close>

lemma py_int_refuses_separator:
  "py_int (split_dot_first ([CHR 0x1C] @ ''8.0'')) =
     Inl (ValueError (''invalid literal for int() with base 10: ''
            @ [CHR 0x27, CHR 0x5C] @ ''x1c8'' @ [CHR 0x27]))"
  by (simp add: py_int_def split_dot_first_def strip_def is_space_def is_digit_def
        invalid_literal_def py_repr_def escape_def printable_def hex_digit_def Let_def)

text \<open>
  C3, as amended. When the index exists, \<open>create_index_if_not_exists\<close> returns after the
  existence check alone. On a fresh name, with the engine reporting a version whose major
  number is \<open>major\<close>: for \<open>major \<ge> 8\<close> it asks the engine to create the index with a
  \<open>dense_vector\<close> field of \<open>dims = D\<close>; for \<open>major = 7\<close> with a \<open>knn_vector\<close> field of
  \<open>dimension = D\<close>, method \<open>hnsw\<close>, space \<open>cosinesimil\<close>; a failure of that creation is
  raised as \<open>Failed to create index: ...\<close>. For any smaller major number nothing is
  created and the error raised is that same provisioning error, whose message wraps the
  unsupported-version message: the two are not distinguished.
\<close>

theorem create_index_schema_selection:
  "(es_indices_exists env h name = Inr True \<longrightarrow>
      create_index_if_not_exists env name D h = (Inr (), h @ [IndicesExists name]))
   \<and> (es_indices_exists env h name = Inr False
        \<and> es_info env (h @ [IndicesExists name]) = Inr version
        \<and> py_int (split_dot_first version) = Inr major \<longrightarrow>
       (8 \<le> major \<longrightarrow>
          create_index_if_not_exists env name D h =
            ((case es_indices_create env (h @ [IndicesExists name, Info]) name (mapping_template (dense_vector D)) of
                Inl e \<Rightarrow> Inl (RuntimeError (''Failed to create index: '' @ str_exn e))
              | Inr u \<Rightarrow> Inr ()),
             h @ [IndicesExists name, Info, IndicesCreate name (mapping_template (dense_vector D))]))
     \<and> (major = 7 \<longrightarrow>
          create_index_if_not_exists env name D h =
            ((case es_indices_create env (h @ [IndicesExists name, Info]) name (mapping_template (knn_vector D)) of
                Inl e \<Rightarrow> Inl (RuntimeError (''Failed to create index: '' @ str_exn e))
              | Inr u \<Rightarrow> Inr ()),
             h @ [IndicesExists name, Info, IndicesCreate name (mapping_template (knn_vector D))]))
     \<and> (major < 7 \<longrightarrow>
          create_index_if_not_exists env name D h =
            (Inl (RuntimeError (''Failed to create index: Unsupported Elasticsearch version: '' @ version)),
             h @ [IndicesExists name, Info])))"
  by (auto simp: create_index_if_not_exists_def bnd_def call_def ret_def raise_def try_except_def
           split: sum.splits)

theorem create_index_schema_selection_witness:
  "create_index_if_not_exists (sim_env ''8.11.0'' (sim_search [] True)) ''docs'' 768 [] =
     (Inr (), [IndicesExists ''docs'', Info, IndicesCreate ''docs'' (mapping_template (dense_vector 768))])
   \<and> create_index_if_not_exists (sim_env ''7.10.2'' (sim_search [] True)) ''docs'' 768 [] =
     (Inr (), [IndicesExists ''docs'', Info, IndicesCreate ''docs'' (mapping_template (knn_vector 768))])
   \<and> create_index_if_not_exists (sim_env ''6.8.0'' (sim_search [] True)) ''docs'' 768 [] =
     (Inl (RuntimeError ''Failed to create index: Unsupported Elasticsearch version: 6.8.0''),
      [IndicesExists ''docs'', Info])
   \<and> create_index_if_not_exists (sim_env ''8.11.0'' (sim_search [] True)) ''docs'' 768
        [IndicesCreate ''docs'' JNull] =
     (Inr (), [IndicesCreate ''docs'' JNull, IndicesExists ''docs''])"
  using create_index_schema_selection [of "sim_env ''8.11.0'' (sim_search [] True)" "[]" "''docs''" 768 "''8.11.0''" 8]
    create_index_schema_selection [of "sim_env ''7.10.2'' (sim_search [] True)" "[]" "''docs''" 768 "''7.10.2''" 7]
    create_index_schema_selection [of "sim_env ''6.8.0'' (sim_search [] True)" "[]" "''docs''" 768 "''6.8.0''" 6]
    create_index_schema_selection [of "sim_env ''8.11.0'' (sim_search [] True)" "[IndicesCreate ''docs'' JNull]" "''docs''" 768]
  by (simp add: py_int_examples sim_env_def)

text \<open>
  Against a version-6 engine the error that leaves the provisioner is the wrapped
  \<open>Failed to create index: ...\<close>, not the unsupported-version error raised inside.
\<close>

theorem create_index_unsupported_counterexample:
  "fst (create_index_if_not_exists (sim_env ''6.8.0'' (sim_search [] True)) ''docs'' 768 []) =
     Inl (RuntimeError ''Failed to create index: Unsupported Elasticsearch version: 6.8.0'')
   \<and> fst (create_index_if_not_exists (sim_env ''6.8.0'' (sim_search [] True)) ''docs'' 768 []) \<noteq>
     Inl (RuntimeError ''Unsupported Elasticsearch version: 6.8.0'')"
  by (simp add: create_index_if_not_exists_def bnd_def call_def ret_def raise_def try_except_def
        sim_env_def py_int_examples)

subsection \<open>Histories of the provisioner and of the search setup\<close>

lemmas comp_defs = bnd_def call_def ret_def raise_def try_except_def

lemma create_index_history:
  "\<exists>new. snd (create_index_if_not_exists env name D h) = h @ IndicesExists name # new
     \<and> list_all (\<lambda>ev. \<not> is_document_op ev \<and> \<not> is_embedding ev \<and> \<not> is_generation ev) new"
  by (auto simp: create_index_if_not_exists_def comp_defs split: sum.splits)

lemma create_index_present:
  "es_indices_exists env h name = Inr True \<Longrightarrow>
     create_index_if_not_exists env name D h = (Inr (), h @ [IndicesExists name])"
  by (simp add: create_index_if_not_exists_def comp_defs)

lemma sim_search_bodies:
  "sim_search c a (filter_body cl) = Inr c"
  "sim_search c a (script_body e n ids) = Inr c"
  "sim_search c True (knn_body e n ids) = Inr c"
  "sim_search c False (knn_body e n ids) = Inl (External ''unknown key [knn]'')"
  by (simp_all add: sim_search_def filter_body_def script_body_def knn_body_def)

lemma search_setup_ok:
  "search_setup env cfg q h = (Inr u, h1) \<Longrightarrow>
     h1 = h @ [NewStore (ES_URL cfg) (q_index q), NewLLM (model q) (OLLAMA_BASE_URL cfg),
               AsRetriever (q_index q) 5, FromChainType (model q) (q_index q)]"
  by (auto simp: search_setup_def comp_defs split: sum.splits)

subsection \<open>Bulk ingestion of an empty list\<close>

text \<open>
  C6, as amended. A bulk ingestion call with an empty document list first binds the store
  and, once bound, provisions the index (the index existence check and, for a missing
  index, the version probe and the creation); when provisioning returns it answers
  \<open>{status: no_docs}\<close>, and when provisioning raises the call raises. It issues no
  document existence check and no document write.
\<close>

theorem bulk_empty_no_document_operation:
  assumes "documents payload = []"
  shows "take 1 (drop (length h) (snd (add_documents_bulk env cfg payload h))) =
           [NewStore (ES_URL cfg) (bulk_index payload)]
     \<and> list_all (\<lambda>ev. \<not> is_document_op ev)
          (drop (length h) (snd (add_documents_bulk env cfg payload h)))
     \<and> (new_store env h (ES_URL cfg) (bulk_index payload) = Inr () \<longrightarrow>
          take 2 (drop (length h) (snd (add_documents_bulk env cfg payload h))) =
            [NewStore (ES_URL cfg) (bulk_index payload), IndicesExists (bulk_index payload)]
          \<and> add_documents_bulk env cfg payload h =
            (case create_index_if_not_exists env (bulk_index payload) (EMBED_DIM cfg)
                    (h @ [NewStore (ES_URL cfg) (bulk_index payload)]) of
               (Inl e, h') \<Rightarrow> (Inl e, h')
             | (Inr u, h') \<Rightarrow> (Inr (JObj [(''status'', JStr ''no_docs'')]), h')))"
proof -
  let ?ns = "NewStore (ES_URL cfg) (bulk_index payload)"
  obtain new where new: "snd (create_index_if_not_exists env (bulk_index payload) (EMBED_DIM cfg) (h @ [?ns]))
      = (h @ [?ns]) @ IndicesExists (bulk_index payload) # new"
    and ok: "list_all (\<lambda>ev. \<not> is_document_op ev \<and> \<not> is_embedding ev \<and> \<not> is_generation ev) new"
    using create_index_history by blast
  show ?thesis
  proof (cases "new_store env h (ES_URL cfg) (bulk_index payload)")
    case (Inl e)
    then show ?thesis
      by (simp add: add_documents_bulk_def comp_defs)
  next
    case (Inr u)
    then show ?thesis using new ok assms
      by (auto simp: add_documents_bulk_def comp_defs list_all_iff split: sum.splits prod.splits)
  qed
qed

theorem bulk_empty_no_document_operation_witness:
  "add_documents_bulk (sim_env ''8.11.0'' (sim_search [] True)) default_config
        \<lparr>documents = [], bulk_index = ''fresh''\<rparr> [IndicesCreate ''fresh'' JNull] =
     (Inr (JObj [(''status'', JStr ''no_docs'')]),
      [IndicesCreate ''fresh'' JNull, NewStore ''http://elasticsearch:9200'' ''fresh'', IndicesExists ''fresh''])"
  using bulk_empty_no_document_operation [where payload = "\<lparr>documents = [], bulk_index = ''fresh''\<rparr>"
      and env = "sim_env ''8.11.0'' (sim_search [] True)" and h = "[IndicesCreate ''fresh'' JNull]"
      and cfg = default_config]
    create_index_present [of "sim_env ''8.11.0'' (sim_search [] True)"
      "[IndicesCreate ''fresh'' JNull, NewStore ''http://elasticsearch:9200'' ''fresh'']" "''fresh''" 768]
  by (simp add: sim_env_def default_config_def)

text \<open>
  On a fresh index name the call with an empty list checks the existence of the index,
  probes the version and creates the index before it answers.
\<close>

theorem bulk_empty_touches_store_counterexample:
  "add_documents_bulk (sim_env ''8.11.0'' (sim_search [] True)) default_config
        \<lparr>documents = [], bulk_index = ''fresh''\<rparr> [] =
     (Inr (JObj [(''status'', JStr ''no_docs'')]),
      [NewStore ''http://elasticsearch:9200'' ''fresh'', IndicesExists ''fresh'', Info,
       IndicesCreate ''fresh'' (mapping_template (dense_vector 768))])
   \<and> list_ex is_write (snd (add_documents_bulk (sim_env ''8.11.0'' (sim_search [] True)) default_config
        \<lparr>documents = [], bulk_index = ''fresh''\<rparr> []))"
  by (simp add: add_documents_bulk_def create_index_if_not_exists_def comp_defs
        sim_env_def default_config_def py_int_examples)

subsection \<open>Search: failures\<close>

text \<open>
  C9, as amended. A failure while binding the store, the language model, the retriever or
  the chain during the setup of a search is caught and returned as \<open>{msg: <error>}\<close>,
  and nothing further is attempted. Once the setup has succeeded, a failure is not caught
  by the endpoint and leaves it as an exception: of the candidate query, of the query
  embedding, of the fallback query (run after the approximate query has failed), and, in
  an unfiltered search, of the generation call. Only a failure of the approximate query
  is caught, and answered by the fallback query.
\<close>

theorem search_setup_failure_is_payload:
  fixes env :: env and cfg :: config and q :: QueryInput and h h1 :: "event list"
    and res :: "hit list" and qe :: "real list"
  defines "body \<equiv> filter_body (must_clauses (the (filter_metadata q)))"
    and "kk \<equiv> (case k q of None \<Rightarrow> 5 | Some n \<Rightarrow> if n = 0 then 5 else n)"
    and "cand \<equiv> Search (ES_INDEX cfg) (filter_body (must_clauses (the (filter_metadata q))))"
    and "ann \<equiv> Search (ES_INDEX cfg)
           (knn_body qe (case k q of None \<Rightarrow> 5 | Some n \<Rightarrow> if n = 0 then 5 else n) (map hit_id res))"
    and "fallback \<equiv> Search (ES_INDEX cfg)
           (script_body qe (case k q of None \<Rightarrow> 5 | Some n \<Rightarrow> if n = 0 then 5 else n) (map hit_id res))"
  shows
  "(new_store env h (ES_URL cfg) (q_index q) = Inl e \<longrightarrow>
      search_rag env cfg q h =
        (Inr (JObj [(''msg'', JStr (str_exn e))]), h @ [NewStore (ES_URL cfg) (q_index q)]))
   \<and> (new_store env h (ES_URL cfg) (q_index q) = Inr ()
        \<and> new_llm env (h @ [NewStore (ES_URL cfg) (q_index q)]) (model q) (OLLAMA_BASE_URL cfg) = Inl e \<longrightarrow>
      search_rag env cfg q h =
        (Inr (JObj [(''msg'', JStr (str_exn e))]),
         h @ [NewStore (ES_URL cfg) (q_index q), NewLLM (model q) (OLLAMA_BASE_URL cfg)]))
   \<and> (new_store env h (ES_URL cfg) (q_index q) = Inr ()
        \<and> new_llm env (h @ [NewStore (ES_URL cfg) (q_index q)]) (model q) (OLLAMA_BASE_URL cfg) = Inr ()
        \<and> as_retriever env (h @ [NewStore (ES_URL cfg) (q_index q), NewLLM (model q) (OLLAMA_BASE_URL cfg)])
              (q_index q) 5 = Inl e \<longrightarrow>
      search_rag env cfg q h =
        (Inr (JObj [(''msg'', JStr (str_exn e))]),
         h @ [NewStore (ES_URL cfg) (q_index q), NewLLM (model q) (OLLAMA_BASE_URL cfg),
              AsRetriever (q_index q) 5]))
   \<and> (new_store env h (ES_URL cfg) (q_index q) = Inr ()
        \<and> new_llm env (h @ [NewStore (ES_URL cfg) (q_index q)]) (model q) (OLLAMA_BASE_URL cfg) = Inr ()
        \<and> as_retriever env (h @ [NewStore (ES_URL cfg) (q_index q), NewLLM (model q) (OLLAMA_BASE_URL cfg)])
              (q_index q) 5 = Inr ()
        \<and> from_chain_type env (h @ [NewStore (ES_URL cfg) (q_index q), NewLLM (model q) (OLLAMA_BASE_URL cfg),
              AsRetriever (q_index q) 5]) (model q) (q_index q) = Inl e \<longrightarrow>
      search_rag env cfg q h =
        (Inr (JObj [(''msg'', JStr (str_exn e))]),
         h @ [NewStore (ES_URL cfg) (q_index q), NewLLM (model q) (OLLAMA_BASE_URL cfg),
              AsRetriever (q_index q) 5, FromChainType (model q) (q_index q)]))
   \<and> (search_setup env cfg q h = (Inr (), h1) \<and> truthy (filter_metadata q)
        \<and> es_search env h1 (ES_INDEX cfg) body = Inl e \<longrightarrow>
      search_rag env cfg q h = (Inl e, h1 @ [cand]))
   \<and> (search_setup env cfg q h = (Inr (), h1) \<and> truthy (filter_metadata q)
        \<and> es_search env h1 (ES_INDEX cfg) body = Inr res \<and> res \<noteq> []
        \<and> embed_query env (h1 @ [cand]) (query q) = Inl e \<longrightarrow>
      search_rag env cfg q h = (Inl e, h1 @ [cand, EmbedQuery (query q)]))
   \<and> (search_setup env cfg q h = (Inr (), h1) \<and> truthy (filter_metadata q)
        \<and> es_search env h1 (ES_INDEX cfg) body = Inr res \<and> res \<noteq> []
        \<and> embed_query env (h1 @ [cand]) (query q) = Inr qe
        \<and> es_search env (h1 @ [cand, EmbedQuery (query q)]) (ES_INDEX cfg)
              (knn_body qe kk (map hit_id res)) = Inl e'
        \<and> es_search env (h1 @ [cand, EmbedQuery (query q), ann]) (ES_INDEX cfg)
              (script_body qe kk (map hit_id res)) = Inl e \<longrightarrow>
      search_rag env cfg q h = (Inl e, h1 @ [cand, EmbedQuery (query q), ann, fallback]))
   \<and> (search_setup env cfg q h = (Inr (), h1) \<and> truthy (filter_metadata q)
        \<and> es_search env h1 (ES_INDEX cfg) body = Inr res \<and> res \<noteq> []
        \<and> embed_query env (h1 @ [cand]) (query q) = Inr qe
        \<and> es_search env (h1 @ [cand, EmbedQuery (query q)]) (ES_INDEX cfg)
              (knn_body qe kk (map hit_id res)) = Inl e'
        \<and> es_search env (h1 @ [cand, EmbedQuery (query q), ann]) (ES_INDEX cfg)
              (script_body qe kk (map hit_id res)) = Inr hits \<longrightarrow>
      search_rag env cfg q h =
        (Inr (JObj [(''query'', JStr (query q)), (''results'', results_of hits)]),
         h1 @ [cand, EmbedQuery (query q), ann, fallback]))
   \<and> (search_setup env cfg q h = (Inr (), h1) \<and> \<not> truthy (filter_metadata q)
        \<and> qa_invoke env h1 (model q) (q_index q) kk (query q) = Inl e \<longrightarrow>
      search_rag env cfg q h = (Inl e, h1 @ [Invoke (model q) (q_index q) kk (query q)]))"
proof -
  have binding: "new_store env h (ES_URL cfg) (q_index q) = Inl e \<longrightarrow>
      search_rag env cfg q h =
        (Inr (JObj [(''msg'', JStr (str_exn e))]), h @ [NewStore (ES_URL cfg) (q_index q)])"
    "new_store env h (ES_URL cfg) (q_index q) = Inr ()
        \<and> new_llm env (h @ [NewStore (ES_URL cfg) (q_index q)]) (model q) (OLLAMA_BASE_URL cfg) = Inl e \<longrightarrow>
      search_rag env cfg q h =
        (Inr (JObj [(''msg'', JStr (str_exn e))]),
         h @ [NewStore (ES_URL cfg) (q_index q), NewLLM (model q) (OLLAMA_BASE_URL cfg)])"
    "new_store env h (ES_URL cfg) (q_index q) = Inr ()
        \<and> new_llm env (h @ [NewStore (ES_URL cfg) (q_index q)]) (model q) (OLLAMA_BASE_URL cfg) = Inr ()
        \<and> as_retriever env (h @ [NewStore (ES_URL cfg) (q_index q), NewLLM (model q) (OLLAMA_BASE_URL cfg)])
              (q_index q) 5 = Inl e \<longrightarrow>
      search_rag env cfg q h =
        (Inr (JObj [(''msg'', JStr (str_exn e))]),
         h @ [NewStore (ES_URL cfg) (q_index q), NewLLM (model q) (OLLAMA_BASE_URL cfg),
              AsRetriever (q_index q) 5])"
    "new_store env h (ES_URL cfg) (q_index q) = Inr ()
        \<and> new_llm env (h @ [NewStore (ES_URL cfg) (q_index q)]) (model q) (OLLAMA_BASE_URL cfg) = Inr ()
        \<and> as_retriever env (h @ [NewStore (ES_URL cfg) (q_index q), NewLLM (model q) (OLLAMA_BASE_URL cfg)])
              (q_index q) 5 = Inr ()
        \<and> from_chain_type env (h @ [NewStore (ES_URL cfg) (q_index q), NewLLM (model q) (OLLAMA_BASE_URL cfg),
              AsRetriever (q_index q) 5]) (model q) (q_index q) = Inl e \<longrightarrow>
      search_rag env cfg q h =
        (Inr (JObj [(''msg'', JStr (str_exn e))]),
         h @ [NewStore (ES_URL cfg) (q_index q), NewLLM (model q) (OLLAMA_BASE_URL cfg),
              AsRetriever (q_index q) 5, FromChainType (model q) (q_index q)])"
    by (simp_all add: search_rag_def search_setup_def comp_defs)
  have after: "search_rag env cfg q h = search_after_setup env cfg q h1"
    if "search_setup env cfg q h = (Inr (), h1)"
    using that by (simp add: search_rag_def)
  have candidate: "search_setup env cfg q h = (Inr (), h1) \<and> truthy (filter_metadata q)
        \<and> es_search env h1 (ES_INDEX cfg) body = Inl e \<longrightarrow>
      search_rag env cfg q h = (Inl e, h1 @ [cand])"
    by (auto simp: after search_after_setup_def comp_defs Let_def body_def cand_def)
  have embedding: "search_setup env cfg q h = (Inr (), h1) \<and> truthy (filter_metadata q)
        \<and> es_search env h1 (ES_INDEX cfg) body = Inr res \<and> res \<noteq> []
        \<and> embed_query env (h1 @ [cand]) (query q) = Inl e \<longrightarrow>
      search_rag env cfg q h = (Inl e, h1 @ [cand, EmbedQuery (query q)])"
    by (auto simp: after search_after_setup_def comp_defs Let_def body_def cand_def)
  have fallback_raises: "search_setup env cfg q h = (Inr (), h1) \<and> truthy (filter_metadata q)
        \<and> es_search env h1 (ES_INDEX cfg) body = Inr res \<and> res \<noteq> []
        \<and> embed_query env (h1 @ [cand]) (query q) = Inr qe
        \<and> es_search env (h1 @ [cand, EmbedQuery (query q)]) (ES_INDEX cfg)
              (knn_body qe kk (map hit_id res)) = Inl e'
        \<and> es_search env (h1 @ [cand, EmbedQuery (query q), ann]) (ES_INDEX cfg)
              (script_body qe kk (map hit_id res)) = Inl e \<longrightarrow>
      search_rag env cfg q h = (Inl e, h1 @ [cand, EmbedQuery (query q), ann, fallback])"
    by (auto simp: after search_after_setup_def comp_defs Let_def body_def cand_def kk_def ann_def
          fallback_def)
  have fallback_answers: "search_setup env cfg q h = (Inr (), h1) \<and> truthy (filter_metadata q)
        \<and> es_search env h1 (ES_INDEX cfg) body = Inr res \<and> res \<noteq> []
        \<and> embed_query env (h1 @ [cand]) (query q) = Inr qe
        \<and> es_search env (h1 @ [cand, EmbedQuery (query q)]) (ES_INDEX cfg)
              (knn_body qe kk (map hit_id res)) = Inl e'
        \<and> es_search env (h1 @ [cand, EmbedQuery (query q), ann]) (ES_INDEX cfg)
              (script_body qe kk (map hit_id res)) = Inr hits \<longrightarrow>
      search_rag env cfg q h =
        (Inr (JObj [(''query'', JStr (query q)), (''results'', results_of hits)]),
         h1 @ [cand, EmbedQuery (query q), ann, fallback])"
    by (auto simp: after search_after_setup_def comp_defs Let_def body_def cand_def kk_def ann_def
          fallback_def)
  have generation: "search_setup env cfg q h = (Inr (), h1) \<and> \<not> truthy (filter_metadata q)
        \<and> qa_invoke env h1 (model q) (q_index q) kk (query q) = Inl e \<longrightarrow>
      search_rag env cfg q h = (Inl e, h1 @ [Invoke (model q) (q_index q) kk (query q)])"
    by (auto simp: after search_after_setup_def comp_defs Let_def kk_def)
  from binding candidate embedding fallback_raises fallback_answers generation
  show ?thesis by blast
qed

theorem search_setup_failure_is_payload_witness:
  "search_rag ((sim_env ''8.11.0'' (sim_search [] True))\<lparr>new_llm := (\<lambda>h m url. Inl (External ''model not found''))\<rparr>)
      default_config q_cats [] =
     (Inr (JObj [(''msg'', JStr ''model not found'')]),
      [NewStore ''http://elasticsearch:9200'' ''other'', NewLLM ''llama3.1:8b'' ''http://host.docker.internal:11434''])
   \<and> search_rag ((sim_env ''8.11.0'' (sim_search [hit_a] True))\<lparr>embed_query := (\<lambda>h t. Inl (External ''model not loaded''))\<rparr>)
      default_config q_cats [] =
     (Inl (External ''model not loaded''),
      [NewStore ''http://elasticsearch:9200'' ''other'',
       NewLLM ''llama3.1:8b'' ''http://host.docker.internal:11434'',
       AsRetriever ''other'' 5, FromChainType ''llama3.1:8b'' ''other'',
       Search ''rag_documents''
         (filter_body [JObj [(''term'', JObj [(''metadata.lang'', JObj [(''value'', JStr ''en'')])])]]),
       EmbedQuery ''cats''])
   \<and> search_rag ((sim_env ''8.11.0'' (sim_search [] True))\<lparr>qa_invoke := (\<lambda>h m idx n t. Inl (External ''model crashed''))\<rparr>)
      default_config (q_cats\<lparr>filter_metadata := None\<rparr>) [] =
     (Inl (External ''model crashed''),
      [NewStore ''http://elasticsearch:9200'' ''other'',
       NewLLM ''llama3.1:8b'' ''http://host.docker.internal:11434'',
       AsRetriever ''other'' 5, FromChainType ''llama3.1:8b'' ''other'',
       Invoke ''llama3.1:8b'' ''other'' 2 ''cats''])"
  using search_setup_failure_is_payload [where env = "(sim_env ''8.11.0'' (sim_search [] True))\<lparr>new_llm := (\<lambda>h m url. Inl (External ''model not found''))\<rparr>"
      and cfg = default_config and q = q_cats and h = "[]" and e = "External ''model not found''"]
    search_setup_failure_is_payload [where env = "(sim_env ''8.11.0'' (sim_search [hit_a] True))\<lparr>embed_query := (\<lambda>h t. Inl (External ''model not loaded''))\<rparr>"
      and cfg = default_config and q = q_cats and h = "[]" and e = "External ''model not loaded''"
      and res = "[hit_a]"
      and ?h1.0 = "[NewStore ''http://elasticsearch:9200'' ''other'',
       NewLLM ''llama3.1:8b'' ''http://host.docker.internal:11434'',
       AsRetriever ''other'' 5, FromChainType ''llama3.1:8b'' ''other'']"]
    search_setup_failure_is_payload [where env = "(sim_env ''8.11.0'' (sim_search [] True))\<lparr>qa_invoke := (\<lambda>h m idx n t. Inl (External ''model crashed''))\<rparr>"
      and cfg = default_config and q = "q_cats\<lparr>filter_metadata := None\<rparr>" and h = "[]"
      and e = "External ''model crashed''"
      and ?h1.0 = "[NewStore ''http://elasticsearch:9200'' ''other'',
       NewLLM ''llama3.1:8b'' ''http://host.docker.internal:11434'',
       AsRetriever ''other'' 5, FromChainType ''llama3.1:8b'' ''other'']"]
  by (simp add: sim_env_def default_config_def q_cats_def search_setup_def comp_defs truthy_def
        sim_search_bodies)

text \<open>
  A filtered search whose candidate query fails raises past the endpoint: the setup
  succeeded, and the candidate query is outside the guarded block.
\<close>

theorem search_raises_counterexample:
  "fst (search_rag (sim_env ''8.11.0'' (\<lambda>body. Inl (External ''connection refused''))) default_config q_cats [])
     = Inl (External ''connection refused'')"
  by (simp add: search_rag_def search_setup_def search_after_setup_def comp_defs sim_env_def
        default_config_def q_cats_def truthy_def)

subsection \<open>Search: a filter without candidates\<close>

text \<open>
  The short circuit follows the reply of the candidate query, which is sent to the default
  index: in a filtered search whose setup succeeded and whose candidate query comes back
  with no hit, the endpoint returns the note right after that query, and neither the
  embedding model nor the language model is run.
\<close>

lemma search_short_circuit_on_default_index:
  assumes "truthy (filter_metadata q)"
    and "search_setup env cfg q h = (Inr (), h1)"
    and "es_search env h1 (ES_INDEX cfg) (filter_body (must_clauses (the (filter_metadata q)))) = Inr []"
  shows "search_rag env cfg q h =
           (Inr (JObj [(''query'', JStr (query q)), (''results'', JList []),
                       (''note'', JStr ''no docs after filter'')]),
            h1 @ [Search (ES_INDEX cfg) (filter_body (must_clauses (the (filter_metadata q))))])
     \<and> list_all (\<lambda>ev. \<not> is_embedding ev \<and> \<not> is_generation ev)
          (drop (length h) (snd (search_rag env cfg q h)))"
proof -
  have h1: "h1 = h @ [NewStore (ES_URL cfg) (q_index q), NewLLM (model q) (OLLAMA_BASE_URL cfg),
               AsRetriever (q_index q) 5, FromChainType (model q) (q_index q)]"
    using assms(2) by (rule search_setup_ok)
  have r: "search_rag env cfg q h =
           (Inr (JObj [(''query'', JStr (query q)), (''results'', JList []),
                       (''note'', JStr ''no docs after filter'')]),
            h1 @ [Search (ES_INDEX cfg) (filter_body (must_clauses (the (filter_metadata q))))])"
    using assms by (simp add: search_rag_def search_after_setup_def comp_defs Let_def)
  show ?thesis unfolding r by (simp add: h1)
qed

text \<open>
  C4. The claim is that a filtered search whose filter matches no document returns
  \<open>{query, results: [], note: "no docs after filter"}\<close> at once, without running the
  embedding model or the language model. Evaluated on a request for the index \<open>other\<close>,
  on an engine in which \<open>other\<close> holds no document (the candidate query, sent to \<open>other\<close>,
  has no hit) while the default index \<open>rag_documents\<close> holds one: the candidate query goes
  to \<open>rag_documents\<close>, finds that document, and the endpoint runs the embedding model and
  returns a ranked result instead of the note.
\<close>

theorem search_empty_requested_index_not_short_circuited:
  "q_index q_cats = ''other''
   \<and> es_search ((sim_env ''8.11.0'' (sim_search [] True))\<lparr>es_search := sim_search_by_index ''rag_documents'' [hit_a]\<rparr>)
        [NewStore ''http://elasticsearch:9200'' ''other'',
         NewLLM ''llama3.1:8b'' ''http://host.docker.internal:11434'',
         AsRetriever ''other'' 5, FromChainType ''llama3.1:8b'' ''other'']
        ''other'' (filter_body (must_clauses (the (filter_metadata q_cats)))) = Inr []
   \<and> search_rag ((sim_env ''8.11.0'' (sim_search [] True))\<lparr>es_search := sim_search_by_index ''rag_documents'' [hit_a]\<rparr>)
        default_config q_cats [] =
      (Inr (JObj [(''query'', JStr ''cats''),
                  (''results'', JList [JObj [(''id'', JStr ''a''), (''score'', JFloat 1), (''source'', JNull)]])]),
       [NewStore ''http://elasticsearch:9200'' ''other'',
        NewLLM ''llama3.1:8b'' ''http://host.docker.internal:11434'',
        AsRetriever ''other'' 5, FromChainType ''llama3.1:8b'' ''other'',
        Search ''rag_documents''
          (filter_body [JObj [(''term'', JObj [(''metadata.lang'', JObj [(''value'', JStr ''en'')])])]]),
        EmbedQuery ''cats'',
        Search ''rag_documents'' (knn_body [1 / 2, 1 / 4] 2 [''a''])])"
  by (simp add: search_rag_def search_setup_def search_after_setup_def comp_defs Let_def sim_env_def
        default_config_def q_cats_def truthy_def sim_search_by_index_def hit_a_def results_of_def)

subsection \<open>Search: a filter of null values only\<close>






subsection \<open>Search: the index and the field of the store queries\<close>

text \<open>
  Whatever the request, every store query issued after the setup goes to the configured
  default index \<open>ES_INDEX\<close>.
\<close>

lemma search_after_setup_searches:
  "list_all (\<lambda>ev. search_index ev = None \<or> search_index ev = Some (ES_INDEX cfg))
     (drop (length h1) (snd (search_after_setup env cfg q h1)))"
  by (auto simp: search_after_setup_def comp_defs Let_def split: sum.splits)

text \<open>
  C1. The claim is that the candidate query and the ranking queries of a filtered search
  run against the index named in the request. Evaluated on a request for the index
  \<open>other\<close> under the default settings: the store and the retriever are bound to
  \<open>other\<close>, but the candidate query, the approximate query and (when the approximate
  query fails) the fallback query are all sent to \<open>rag_documents\<close>, the default index.
\<close>

theorem search_filtered_queries_default_index:
  "q_index q_cats = ''other''
   \<and> snd (search_rag (sim_env ''8.11.0'' (sim_search [hit_a] True)) default_config q_cats []) =
      [NewStore ''http://elasticsearch:9200'' ''other'',
       NewLLM ''llama3.1:8b'' ''http://host.docker.internal:11434'',
       AsRetriever ''other'' 5, FromChainType ''llama3.1:8b'' ''other'',
       Search ''rag_documents''
         (filter_body [JObj [(''term'', JObj [(''metadata.lang'', JObj [(''value'', JStr ''en'')])])]]),
       EmbedQuery ''cats'',
       Search ''rag_documents'' (knn_body [1 / 2, 1 / 4] 2 [''a''])]
   \<and> snd (search_rag (sim_env ''8.11.0'' (sim_search [hit_a] False)) default_config q_cats []) =
      [NewStore ''http://elasticsearch:9200'' ''other'',
       NewLLM ''llama3.1:8b'' ''http://host.docker.internal:11434'',
       AsRetriever ''other'' 5, FromChainType ''llama3.1:8b'' ''other'',
       Search ''rag_documents''
         (filter_body [JObj [(''term'', JObj [(''metadata.lang'', JObj [(''value'', JStr ''en'')])])]]),
       EmbedQuery ''cats'',
       Search ''rag_documents'' (knn_body [1 / 2, 1 / 4] 2 [''a'']),
       Search ''rag_documents'' (script_body [1 / 2, 1 / 4] 2 [''a''])]"
  by (simp add: search_rag_def search_setup_def search_after_setup_def comp_defs Let_def sim_env_def
        default_config_def q_cats_def truthy_def sim_search_bodies hit_a_def)

text \<open>
  C2. The claim is that the fallback ranks the candidates by the cosine similarity of
  their stored vectors to the query vector. Evaluated on a filtered search whose
  approximate query fails, against an index created by the provisioner: the index stores
  the vector in the field \<open>vector\<close>, which the approximate query names too, while the
  fallback script scores on a field \<open>embedding\<close>; the fallback query carries the
  candidate ids and \<open>size = k\<close>, and goes to the default index.
\<close>

theorem search_fallback_scores_embedding_field:
  "search_rag (sim_env ''8.11.0'' (sim_search [hit_a] False)) default_config q_cats
       [IndicesCreate ''other'' (mapping_template (dense_vector 768))] =
     (Inr (JObj [(''query'', JStr ''cats''),
                 (''results'', JList [JObj [(''id'', JStr ''a''), (''score'', JFloat 1), (''source'', JNull)]])]),
      [IndicesCreate ''other''
         (JObj [(''mappings'', JObj [(''properties'',
            JObj [(''metadata'', JObj [(''type'', JStr ''object''), (''enabled'', JBool True),
                                      (''dynamic'', JBool False)]),
                  (''vector'', JObj [(''type'', JStr ''dense_vector''), (''dims'', JInt 768)])])])]),
       NewStore ''http://elasticsearch:9200'' ''other'',
       NewLLM ''llama3.1:8b'' ''http://host.docker.internal:11434'',
       AsRetriever ''other'' 5, FromChainType ''llama3.1:8b'' ''other'',
       Search ''rag_documents''
         (JObj [(''size'', JInt 1000), (''_source'', JBool False),
                (''query'', JObj [(''bool'', JObj [(''filter'',
                   JList [JObj [(''term'', JObj [(''metadata.lang'', JObj [(''value'', JStr ''en'')])])]])])])]),
       EmbedQuery ''cats'',
       Search ''rag_documents''
         (JObj [(''knn'', JObj [(''field'', JStr ''vector''),
                               (''query_vector'', JList [JFloat (1 / 2), JFloat (1 / 4)]),
                               (''k'', JInt 2), (''num_candidates'', JInt 100)]),
                (''query'', JObj [(''ids'', JObj [(''values'', JList [JStr ''a''])])])]),
       Search ''rag_documents''
         (JObj [(''size'', JInt 2),
                (''query'', JObj [(''script_score'',
                   JObj [(''query'', JObj [(''ids'', JObj [(''values'', JList [JStr ''a''])])]),
                         (''script'', JObj [(''source'', JStr ''cosineSimilarity(params.q, 'embedding') + 1.0''),
                                           (''params'', JObj [(''q'', JList [JFloat (1 / 2), JFloat (1 / 4)])])])])])])])"
  by (simp add: search_rag_def search_setup_def search_after_setup_def comp_defs Let_def sim_env_def
        default_config_def q_cats_def truthy_def sim_search_bodies hit_a_def results_of_def)
     (simp add: filter_body_def knn_body_def script_body_def script_source_def ids_query_def
        mapping_template_def dense_vector_def metadata_property_def)

subsection \<open>Single-document ingestion\<close>

lemma writes_under_append [simp]:
  "writes_under idx i (h @ h') = writes_under idx i h + writes_under idx i h'"
  by (simp add: writes_under_def)

lemma writes_under_no_document_op:
  "list_all (\<lambda>ev. \<not> is_document_op ev \<and> \<not> is_embedding ev \<and> \<not> is_generation ev) new
     \<Longrightarrow> writes_under idx i new = 0"
proof (induction new)
  case Nil
  then show ?case by (simp add: writes_under_def)
next
  case (Cons ev new)
  then show ?case by (cases ev) (simp_all add: writes_under_def)
qed

lemma create_index_writes_under:
  "writes_under idx i (snd (create_index_if_not_exists env name D h)) = writes_under idx i h"
proof -
  obtain new where "snd (create_index_if_not_exists env name D h) = h @ IndicesExists name # new"
    and "list_all (\<lambda>ev. \<not> is_document_op ev \<and> \<not> is_embedding ev \<and> \<not> is_generation ev) new"
    using create_index_history by blast
  then show ?thesis
    using writes_under_no_document_op [of new idx i]
    by (simp add: writes_under_def)
qed

lemma create_index_embedding:
  "list_all (\<lambda>ev. \<not> is_embedding ev) (drop (length h) (snd (create_index_if_not_exists env name D h)))"
proof -
  obtain new where "snd (create_index_if_not_exists env name D h) = h @ IndicesExists name # new"
    and "list_all (\<lambda>ev. \<not> is_document_op ev \<and> \<not> is_embedding ev \<and> \<not> is_generation ev) new"
    using create_index_history by blast
  then show ?thesis by (simp add: list_all_iff)
qed

lemma create_index_extends:
  "\<exists>new. snd (create_index_if_not_exists env name D h) = h @ new"
  using create_index_history by blast

text \<open>The two outcomes of \<open>add_document\<close> for a record with a non-empty id.\<close>

lemma add_document_with_id:
  assumes "doc_id doc = Some i" and "i \<noteq> []"
    and "add_document env cfg doc h = (Inr r, h')"
  shows "\<exists>hc. create_index_if_not_exists env (index doc) (EMBED_DIM cfg)
                 (h @ [NewStore (ES_URL cfg) (index doc)]) = (Inr (), hc)
           \<and> ((es_exists env hc (index doc) i = Inr True
                 \<and> r = JObj [(''status'', JStr ''skipped''), (''reason'', JStr ''exists'')]
                 \<and> h' = hc @ [Exists (index doc) i])
              \<or> (es_exists env hc (index doc) i = Inr False
                 \<and> r = JObj [(''status'', JStr ''ok'')]
                 \<and> h' = hc @ [Exists (index doc) i,
                       AddDocuments (index doc)
                         [Document (page_content doc) (clean_metadata (metadata doc))] (Some [Some i])]))"
  using assms
  by (auto simp: add_document_def comp_defs truthy_def Let_def split: sum.splits prod.splits if_splits)

text \<open>
  C7, as amended. Take a record with a non-empty id, an engine that reports a document as
  existing exactly when a write under its id has been issued, and a history without such a
  write. If two successive calls of \<open>add_document\<close> with that id and index return, the
  first returns \<open>{status: ok}\<close> and the second \<open>{status: skipped}\<close>; the second call
  runs no embedding and no document write (\<open>add_documents\<close> does both); and after each call
  the history holds exactly one write under that id.
\<close>

theorem add_document_twice:
  assumes id: "doc_id doc = Some i" "i \<noteq> []"
    and same: "doc_id doc' = doc_id doc" "index doc' = index doc"
    and fresh: "writes_under (index doc) i h0 = 0"
    and coherent: "\<forall>h. es_exists env h (index doc) i = Inr (0 < writes_under (index doc) i h)"
    and first: "add_document env cfg doc h0 = (Inr r1, h1)"
    and second: "add_document env cfg doc' h1 = (Inr r2, h2)"
  shows "r1 = JObj [(''status'', JStr ''ok'')]
     \<and> r2 = JObj [(''status'', JStr ''skipped''), (''reason'', JStr ''exists'')]
     \<and> list_all (\<lambda>ev. \<not> is_embedding ev) (drop (length h1) h2)
     \<and> writes_under (index doc) i h1 = 1
     \<and> writes_under (index doc) i h2 = 1"
proof -
  let ?idx = "index doc"
  let ?ns = "NewStore (ES_URL cfg) ?idx"
  obtain hc1 where c1: "create_index_if_not_exists env ?idx (EMBED_DIM cfg) (h0 @ [?ns]) = (Inr (), hc1)"
    and o1: "(es_exists env hc1 ?idx i = Inr True
                 \<and> r1 = JObj [(''status'', JStr ''skipped''), (''reason'', JStr ''exists'')]
                 \<and> h1 = hc1 @ [Exists ?idx i])
              \<or> (es_exists env hc1 ?idx i = Inr False
                 \<and> r1 = JObj [(''status'', JStr ''ok'')]
                 \<and> h1 = hc1 @ [Exists ?idx i,
                       AddDocuments ?idx [Document (page_content doc) (clean_metadata (metadata doc))]
                         (Some [Some i])])"
    using add_document_with_id [OF id first] by blast
  have w1: "writes_under ?idx i hc1 = 0"
    using create_index_writes_under [of ?idx i env ?idx "EMBED_DIM cfg" "h0 @ [?ns]"] c1 fresh
    by (simp add: writes_under_def)
  have e1: "es_exists env hc1 ?idx i = Inr False"
    using coherent w1 by simp
  from o1 e1 have r1: "r1 = JObj [(''status'', JStr ''ok'')]"
    and h1: "h1 = hc1 @ [Exists ?idx i,
                AddDocuments ?idx [Document (page_content doc) (clean_metadata (metadata doc))]
                  (Some [Some i])]"
    by auto
  have wh1: "writes_under ?idx i h1 = 1"
    using w1 by (simp add: h1) (simp add: writes_under_def)
  have id': "doc_id doc' = Some i" using id same by simp
  obtain hc2 where c2: "create_index_if_not_exists env ?idx (EMBED_DIM cfg) (h1 @ [?ns]) = (Inr (), hc2)"
    and o2: "(es_exists env hc2 ?idx i = Inr True
                 \<and> r2 = JObj [(''status'', JStr ''skipped''), (''reason'', JStr ''exists'')]
                 \<and> h2 = hc2 @ [Exists ?idx i])
              \<or> (es_exists env hc2 ?idx i = Inr False
                 \<and> r2 = JObj [(''status'', JStr ''ok'')]
                 \<and> h2 = hc2 @ [Exists ?idx i,
                       AddDocuments ?idx [Document (page_content doc') (clean_metadata (metadata doc'))]
                         (Some [Some i])])"
    using add_document_with_id [OF id' id(2) second] same by auto
  have w2: "writes_under ?idx i hc2 = 1"
    using create_index_writes_under [of ?idx i env ?idx "EMBED_DIM cfg" "h1 @ [?ns]"] c2 wh1
    by (simp add: writes_under_def)
  have e2: "es_exists env hc2 ?idx i = Inr True"
    using coherent w2 by simp
  from o2 e2 have r2: "r2 = JObj [(''status'', JStr ''skipped''), (''reason'', JStr ''exists'')]"
    and h2: "h2 = hc2 @ [Exists ?idx i]"
    by auto
  have wh2: "writes_under ?idx i h2 = 1"
    using w2 by (simp add: h2) (simp add: writes_under_def)
  have ext: "list_all (\<lambda>ev. \<not> is_embedding ev) (drop (length (h1 @ [?ns])) hc2)"
    using create_index_embedding [of "h1 @ [?ns]" env ?idx "EMBED_DIM cfg"] c2 by simp
  obtain new where new: "hc2 = (h1 @ [?ns]) @ new"
    using create_index_extends [of env ?idx "EMBED_DIM cfg" "h1 @ [?ns]"] c2 by auto
  have emb: "list_all (\<lambda>ev. \<not> is_embedding ev) (drop (length h1) h2)"
    using ext by (simp add: h2 new)
  from r1 r2 emb wh1 wh2 show ?thesis by blast
qed


lemma sim_add_document_first:
  "add_document (sim_env ''8.11.0'' (sim_search [] True)) default_config doc_cats [] =
     (Inr (JObj [(''status'', JStr ''ok'')]),
      [NewStore ''http://elasticsearch:9200'' ''docs'', IndicesExists ''docs'', Info,
       IndicesCreate ''docs'' (mapping_template (dense_vector 768)),
       Exists ''docs'' ''d1'',
       AddDocuments ''docs'' [Document ''cats purr'' [(''lang'', JStr ''en'')]] (Some [Some ''d1''])])"
  by (simp add: add_document_def create_index_if_not_exists_def comp_defs sim_env_def
        default_config_def doc_cats_def py_int_examples truthy_def clean_metadata_def
        writes_under_def)

lemma sim_add_document_second:
  "add_document (sim_env ''8.11.0'' (sim_search [] True)) default_config doc_cats
      [NewStore ''http://elasticsearch:9200'' ''docs'', IndicesExists ''docs'', Info,
       IndicesCreate ''docs'' (mapping_template (dense_vector 768)),
       Exists ''docs'' ''d1'',
       AddDocuments ''docs'' [Document ''cats purr'' [(''lang'', JStr ''en'')]] (Some [Some ''d1''])] =
     (Inr (JObj [(''status'', JStr ''skipped''), (''reason'', JStr ''exists'')]),
      [NewStore ''http://elasticsearch:9200'' ''docs'', IndicesExists ''docs'', Info,
       IndicesCreate ''docs'' (mapping_template (dense_vector 768)),
       Exists ''docs'' ''d1'',
       AddDocuments ''docs'' [Document ''cats purr'' [(''lang'', JStr ''en'')]] (Some [Some ''d1'']),
       NewStore ''http://elasticsearch:9200'' ''docs'', IndicesExists ''docs'',
       Exists ''docs'' ''d1''])"
  by (simp add: add_document_def create_index_if_not_exists_def comp_defs sim_env_def
        default_config_def doc_cats_def py_int_examples truthy_def clean_metadata_def
        writes_under_def)

theorem add_document_twice_witness:
  "fst (add_document (sim_env ''8.11.0'' (sim_search [] True)) default_config doc_cats []) =
     Inr (JObj [(''status'', JStr ''ok'')])
   \<and> fst (add_document (sim_env ''8.11.0'' (sim_search [] True)) default_config doc_cats
            (snd (add_document (sim_env ''8.11.0'' (sim_search [] True)) default_config doc_cats []))) =
     Inr (JObj [(''status'', JStr ''skipped''), (''reason'', JStr ''exists'')])
   \<and> writes_under ''docs'' ''d1''
        [NewStore ''http://elasticsearch:9200'' ''docs'', IndicesExists ''docs'', Info,
         IndicesCreate ''docs'' (mapping_template (dense_vector 768)),
         Exists ''docs'' ''d1'',
         AddDocuments ''docs'' [Document ''cats purr'' [(''lang'', JStr ''en'')]] (Some [Some ''d1'']),
         NewStore ''http://elasticsearch:9200'' ''docs'', IndicesExists ''docs'',
         Exists ''docs'' ''d1''] = 1"
proof -
  have i: "doc_id doc_cats = Some ''d1''" "''d1'' \<noteq> []" "doc_id doc_cats = doc_id doc_cats"
    "index doc_cats = index doc_cats"
    by (simp_all add: doc_cats_def)
  have f: "writes_under (index doc_cats) ''d1'' [] = 0"
    by (simp add: writes_under_def)
  have c: "\<forall>h. es_exists (sim_env ''8.11.0'' (sim_search [] True)) h (index doc_cats) ''d1'' =
             Inr (0 < writes_under (index doc_cats) ''d1'' h)"
    by (simp add: sim_env_def)
  have idx: "index doc_cats = ''docs''"
    by (simp add: doc_cats_def)
  show ?thesis
    using add_document_twice [OF i f c sim_add_document_first sim_add_document_second]
    by (simp add: sim_add_document_first sim_add_document_second idx)
qed

text \<open>
  With an empty string as id the endpoint takes the record as having no id: it never asks
  whether the document exists, so the second call answers \<open>ok\<close> again and embeds and
  writes the document a second time.
\<close>

theorem add_document_empty_id_counterexample:
  "add_document (sim_env ''8.11.0'' (sim_search [] True)) default_config doc_empty_id [] =
     (Inr (JObj [(''status'', JStr ''ok'')]),
      [NewStore ''http://elasticsearch:9200'' ''docs'', IndicesExists ''docs'', Info,
       IndicesCreate ''docs'' (mapping_template (dense_vector 768)),
       AddDocuments ''docs'' [Document ''cats purr'' [(''lang'', JStr ''en'')]] None])
   \<and> add_document (sim_env ''8.11.0'' (sim_search [] True)) default_config doc_empty_id
      [NewStore ''http://elasticsearch:9200'' ''docs'', IndicesExists ''docs'', Info,
       IndicesCreate ''docs'' (mapping_template (dense_vector 768)),
       AddDocuments ''docs'' [Document ''cats purr'' [(''lang'', JStr ''en'')]] None] =
     (Inr (JObj [(''status'', JStr ''ok'')]),
      [NewStore ''http://elasticsearch:9200'' ''docs'', IndicesExists ''docs'', Info,
       IndicesCreate ''docs'' (mapping_template (dense_vector 768)),
       AddDocuments ''docs'' [Document ''cats purr'' [(''lang'', JStr ''en'')]] None,
       NewStore ''http://elasticsearch:9200'' ''docs'', IndicesExists ''docs'',
       AddDocuments ''docs'' [Document ''cats purr'' [(''lang'', JStr ''en'')]] None])"
  by (simp add: add_document_def create_index_if_not_exists_def comp_defs sim_env_def
        default_config_def doc_empty_id_def py_int_examples truthy_def clean_metadata_def
        writes_under_def)

subsection \<open>Bulk ingestion: ids travel with documents\<close>

lemma ids_arg_pairs:
  assumes "id_list_ok ids" and "length batch = length ids"
  shows "zip batch (case ids_arg ids of None \<Rightarrow> replicate (length batch) None | Some l \<Rightarrow> l) = zip batch ids"
proof (cases "list_ex truthy ids")
  case True
  then show ?thesis by (simp add: ids_arg_def)
next
  case False
  then have "\<forall>i \<in> set ids. i = None"
    using assms(1) by (auto simp: id_list_ok_def list_all_iff list_ex_iff)
  then have "ids = replicate (length ids) None"
    by (simp add: replicate_length_same)
  then show ?thesis using False assms(2) by (simp add: ids_arg_def)
qed

lemma ids_arg_aligned:
  "length batch = length ids \<Longrightarrow> aligned (AddDocuments idx batch (ids_arg ids))"
  by (simp add: ids_arg_def)

lemma subseq_same_prefix:
  "subseq xs ys \<Longrightarrow> subseq (p @ xs) (p @ ys)"
  by (rule list_emb_append_mono) simp_all

lemma subseq_skip_middle:
  "subseq (a @ b) (a @ c # b)"
  by (rule subseq_same_prefix) (rule list_emb_Cons, simp)

text \<open>The reference list may grow.\<close>

lemma loop_post_mono:
  assumes "loop_post ref added h out" and "subseq ref ref'"
  shows "loop_post ref' added h out"
proof -
  obtain new where n: "snd out = h @ new" "list_all aligned new"
    and c: "(case fst out of
             Inl e \<Rightarrow> subseq (concat (map write_pairs new)) ref
           | Inr st' \<Rightarrow>
               length (fst st') = length (fst (snd st')) \<and> id_list_ok (fst (snd st'))
               \<and> subseq (concat (map write_pairs new) @ zip (fst st') (fst (snd st'))) ref
               \<and> snd (snd st') = added + int (length (concat (map write_pairs new))))"
    using assms(1) unfolding loop_post_def by blast
  have "(case fst out of
             Inl e \<Rightarrow> subseq (concat (map write_pairs new)) ref'
           | Inr st' \<Rightarrow>
               length (fst st') = length (fst (snd st')) \<and> id_list_ok (fst (snd st'))
               \<and> subseq (concat (map write_pairs new) @ zip (fst st') (fst (snd st'))) ref'
               \<and> snd (snd st') = added + int (length (concat (map write_pairs new))))"
    using c assms(2) by (auto split: sum.splits intro: subseq_order.order_trans)
  with n show ?thesis unfolding loop_post_def by blast
qed

text \<open>Events issued before the loop goes on, with the pairs they wrote.\<close>

lemma loop_post_prefix:
  assumes "loop_post ref (added + int (length (concat (map write_pairs pre)))) (h @ pre) out"
    and "list_all aligned pre"
  shows "loop_post (concat (map write_pairs pre) @ ref) added h out"
proof -
  let ?P = "concat (map write_pairs pre)"
  obtain new where n: "snd out = (h @ pre) @ new" "list_all aligned new"
    and c: "(case fst out of
             Inl e \<Rightarrow> subseq (concat (map write_pairs new)) ref
           | Inr st' \<Rightarrow>
               length (fst st') = length (fst (snd st')) \<and> id_list_ok (fst (snd st'))
               \<and> subseq (concat (map write_pairs new) @ zip (fst st') (fst (snd st'))) ref
               \<and> snd (snd st') = (added + int (length ?P)) + int (length (concat (map write_pairs new))))"
    using assms(1) unfolding loop_post_def by blast
  have 1: "snd out = h @ (pre @ new)" using n(1) by simp
  have 2: "list_all aligned (pre @ new)" using n(2) assms(2) by simp
  have 3: "(case fst out of
             Inl e \<Rightarrow> subseq (concat (map write_pairs (pre @ new))) (?P @ ref)
           | Inr st' \<Rightarrow>
               length (fst st') = length (fst (snd st')) \<and> id_list_ok (fst (snd st'))
               \<and> subseq (concat (map write_pairs (pre @ new)) @ zip (fst st') (fst (snd st'))) (?P @ ref)
               \<and> snd (snd st') = added + int (length (concat (map write_pairs (pre @ new)))))"
    using c by (auto split: sum.splits intro: subseq_same_prefix)
  from 1 2 3 show ?thesis unfolding loop_post_def by blast
qed

lemma loop_post_raise:
  assumes "list_all aligned pre" and "subseq (concat (map write_pairs pre)) ref"
  shows "loop_post ref added h (Inl e, h @ pre)"
  unfolding loop_post_def using assms
  by (intro exI [of _ pre]) simp

lemma loop_post_done:
  assumes "length batch = length ids" and "id_list_ok ids" and "subseq (zip batch ids) ref"
  shows "loop_post ref added h (Inr (batch, ids, added), h)"
  unfolding loop_post_def using assms
  by (intro exI [of _ "[]"]) simp

text \<open>One turn of the loop, with the step taken for a record that is not skipped.\<close>

lemma bulk_loop_step:
  "bulk_loop env cfg idx (d # ds) (batch, ids, added) h =
     (let B = batch @ [fst (batched_pair d)]; I = ids @ [snd (batched_pair d)];
          keep = (\<lambda>hk.
            if BULK_BATCH_SIZE cfg \<le> int (length B)
            then (case add_documents env hk idx B (ids_arg I) of
                    Inl e \<Rightarrow> (Inl e, hk @ [AddDocuments idx B (ids_arg I)])
                  | Inr u \<Rightarrow>
                      bulk_loop env cfg idx ds ([], [], added + int (length B))
                        (hk @ [AddDocuments idx B (ids_arg I)]))
            else bulk_loop env cfg idx ds (B, I, added) hk)
      in if truthy (doc_id d)
         then (case es_exists env h idx (the (doc_id d)) of
                 Inl e \<Rightarrow> (Inl e, h @ [Exists idx (the (doc_id d))])
               | Inr present \<Rightarrow>
                   if present
                   then bulk_loop env cfg idx ds (batch, ids, added) (h @ [Exists idx (the (doc_id d))])
                   else keep (h @ [Exists idx (the (doc_id d))]))
         else keep h)"
  by (simp add: comp_defs batched_pair_def Let_def split: sum.splits)

lemma bulk_loop_post:
  assumes "length batch = length ids" and "id_list_ok ids"
  shows "loop_post (zip batch ids @ map batched_pair ds) added h
           (bulk_loop env cfg idx ds (batch, ids, added) h)"
  using assms
proof (induction ds arbitrary: batch ids added h)
  case Nil
  then show ?case by (simp add: ret_def loop_post_done)
next
  case (Cons d ds)
  let ?B = "batch @ [fst (batched_pair d)]"
  let ?I = "ids @ [snd (batched_pair d)]"
  let ?W = "AddDocuments idx ?B (ids_arg ?I)"
  let ?ref = "zip batch ids @ batched_pair d # map batched_pair ds"
  let ?x = "Exists idx (the (doc_id d))"
  define keep where "keep = (\<lambda>hk.
            if BULK_BATCH_SIZE cfg \<le> int (length ?B)
            then (case add_documents env hk idx ?B (ids_arg ?I) of
                    Inl e \<Rightarrow> (Inl e, hk @ [?W])
                  | Inr u \<Rightarrow>
                      bulk_loop env cfg idx ds ([], [], added + int (length ?B)) (hk @ [?W]))
            else bulk_loop env cfg idx ds (?B, ?I, added) hk)"
  have len: "length ?B = length ?I" using Cons.prems(1) by simp
  have ok: "id_list_ok ?I"
    using Cons.prems(2) by (simp add: id_list_ok_def batched_pair_def)
  have z: "zip ?B ?I = zip batch ids @ [batched_pair d]"
    using Cons.prems(1) by simp
  have w: "write_pairs ?W = zip batch ids @ [batched_pair d]"
    using ids_arg_pairs [OF ok len] z by simp
  have lw: "int (length (zip batch ids @ [batched_pair d])) = int (length ?B)"
    using Cons.prems(1) by simp
  have sub: "subseq (zip batch ids @ [batched_pair d]) ?ref"
    by (rule subseq_same_prefix) simp
  have keep_post: "loop_post ?ref added h (keep (h @ pre))"
    if pre: "list_all aligned pre" "concat (map write_pairs pre) = []" for pre
  proof (cases "BULK_BATCH_SIZE cfg \<le> int (length ?B)")
    case flush: True
    have cw: "concat (map write_pairs (pre @ [?W])) = zip batch ids @ [batched_pair d]"
      by (simp add: pre(2) w del: write_pairs.simps)
    have aw: "list_all aligned (pre @ [?W])"
      using pre(1) ids_arg_aligned [OF len] by simp
    show ?thesis
    proof (cases "add_documents env (h @ pre) idx ?B (ids_arg ?I)")
      case (Inl e)
      have "loop_post ?ref added h (Inl e, h @ (pre @ [?W]))"
        by (rule loop_post_raise) (rule aw, simp only: cw sub)
      then show ?thesis using flush Inl by (simp add: keep_def)
    next
      case (Inr u)
      have "loop_post (zip [] [] @ map batched_pair ds) (added + int (length ?B)) (h @ (pre @ [?W]))
              (bulk_loop env cfg idx ds ([], [], added + int (length ?B)) (h @ (pre @ [?W])))"
        by (rule Cons.IH) (simp_all add: id_list_ok_def)
      then have "loop_post (map batched_pair ds)
              (added + int (length (concat (map write_pairs (pre @ [?W]))))) (h @ (pre @ [?W]))
              (bulk_loop env cfg idx ds ([], [], added + int (length ?B)) (h @ (pre @ [?W])))"
        unfolding cw lw by simp
      then have "loop_post (concat (map write_pairs (pre @ [?W])) @ map batched_pair ds) added h
              (bulk_loop env cfg idx ds ([], [], added + int (length ?B)) (h @ (pre @ [?W])))"
        by (rule loop_post_prefix) (rule aw)
      then have "loop_post ?ref added h
              (bulk_loop env cfg idx ds ([], [], added + int (length ?B)) (h @ (pre @ [?W])))"
        unfolding cw by simp
      then show ?thesis using flush Inr by (simp add: keep_def)
    qed
  next
    case False
    have "loop_post (zip ?B ?I @ map batched_pair ds) added (h @ pre)
            (bulk_loop env cfg idx ds (?B, ?I, added) (h @ pre))"
      by (rule Cons.IH) (rule len, rule ok)
    then have "loop_post (zip ?B ?I @ map batched_pair ds)
            (added + int (length (concat (map write_pairs pre)))) (h @ pre)
            (bulk_loop env cfg idx ds (?B, ?I, added) (h @ pre))"
      unfolding pre(2) by simp
    then have "loop_post (concat (map write_pairs pre) @ zip ?B ?I @ map batched_pair ds) added h
            (bulk_loop env cfg idx ds (?B, ?I, added) (h @ pre))"
      by (rule loop_post_prefix) (rule pre(1))
    then have "loop_post ?ref added h (bulk_loop env cfg idx ds (?B, ?I, added) (h @ pre))"
      unfolding pre(2) z by simp
    then show ?thesis using False by (simp add: keep_def)
  qed
  have step: "bulk_loop env cfg idx (d # ds) (batch, ids, added) h =
      (if truthy (doc_id d)
         then (case es_exists env h idx (the (doc_id d)) of
                 Inl e \<Rightarrow> (Inl e, h @ [?x])
               | Inr present \<Rightarrow>
                   if present then bulk_loop env cfg idx ds (batch, ids, added) (h @ [?x])
                   else keep (h @ [?x]))
         else keep h)"
    unfolding keep_def bulk_loop_step Let_def ..
  show ?case
  proof (cases "truthy (doc_id d)")
    case False
    then show ?thesis using keep_post [of "[]"] unfolding step by simp
  next
    case t: True
    show ?thesis
    proof (cases "es_exists env h idx (the (doc_id d))")
      case (Inl e)
      have "loop_post ?ref added h (Inl e, h @ [?x])"
        by (rule loop_post_raise) simp_all
      then show ?thesis using t Inl unfolding step by simp
    next
      case (Inr present)
      show ?thesis
      proof (cases present)
        case True
        have "loop_post (zip batch ids @ map batched_pair ds) added (h @ [?x])
                (bulk_loop env cfg idx ds (batch, ids, added) (h @ [?x]))"
          by (rule Cons.IH) (rule Cons.prems)+
        then have "loop_post (concat (map write_pairs [?x]) @ zip batch ids @ map batched_pair ds) added h
                (bulk_loop env cfg idx ds (batch, ids, added) (h @ [?x]))"
          by (intro loop_post_prefix) simp_all
        then have "loop_post ?ref added h (bulk_loop env cfg idx ds (batch, ids, added) (h @ [?x]))"
          by (rule loop_post_mono) (simp add: subseq_skip_middle)
        then show ?thesis using t Inr True unfolding step by simp
      next
        case False
        then show ?thesis using t Inr keep_post [of "[?x]"] unfolding step by simp
      qed
    qed
  qed
qed

text \<open>When no document exists yet, nothing is skipped: every batched pair is written or held.\<close>

lemma bulk_loop_all_kept:
  assumes "\<forall>h i. es_exists env h idx i = Inr False"
    and "length batch = length ids" and "id_list_ok ids"
    and "bulk_loop env cfg idx ds (batch, ids, added) h = (Inr st', h')"
  shows "\<exists>new. h' = h @ new
           \<and> concat (map write_pairs new) @ zip (fst st') (fst (snd st'))
               = zip batch ids @ map batched_pair ds"
  using assms(2-)
proof (induction ds arbitrary: batch ids added h)
  case Nil
  then show ?case by (auto simp: ret_def)
next
  case (Cons d ds)
  let ?B = "batch @ [fst (batched_pair d)]"
  let ?I = "ids @ [snd (batched_pair d)]"
  let ?W = "AddDocuments idx ?B (ids_arg ?I)"
  let ?hk = "if truthy (doc_id d) then h @ [Exists idx (the (doc_id d))] else h"
  have len: "length ?B = length ?I" using Cons.prems(1) by simp
  have ok: "id_list_ok ?I"
    using Cons.prems(2) by (simp add: id_list_ok_def batched_pair_def)
  have w: "write_pairs ?W = zip batch ids @ [batched_pair d]"
    using ids_arg_pairs [OF ok len] Cons.prems(1) by simp
  have hk: "\<exists>pre. ?hk = h @ pre \<and> concat (map write_pairs pre) = []"
    by (cases "truthy (doc_id d)") auto
  then obtain pre where pre: "?hk = h @ pre" "concat (map write_pairs pre) = []" by blast
  show ?case
  proof (cases "BULK_BATCH_SIZE cfg \<le> int (length ?B)")
    case True
    then have "\<exists>u. add_documents env ?hk idx ?B (ids_arg ?I) = Inr u
        \<and> bulk_loop env cfg idx ds ([], [], added + int (length ?B)) (?hk @ [?W]) = (Inr st', h')"
      using Cons.prems(3) assms(1) unfolding bulk_loop_step Let_def
      by (auto split: sum.splits if_splits)
    then have "bulk_loop env cfg idx ds ([], [], added + int (length ?B)) (?hk @ [?W]) = (Inr st', h')"
      by blast
    from Cons.IH [OF _ _ this]
    obtain new where new: "h' = (?hk @ [?W]) @ new"
      "concat (map write_pairs new) @ zip (fst st') (fst (snd st')) = map batched_pair ds"
      by (auto simp: id_list_ok_def)
    have "h' = h @ (pre @ ?W # new)" using new(1) pre(1) by simp
    moreover have "concat (map write_pairs (pre @ ?W # new)) @ zip (fst st') (fst (snd st'))
        = zip batch ids @ map batched_pair (d # ds)"
      using new(2) by (simp add: pre(2) w del: write_pairs.simps)
    ultimately show ?thesis by blast
  next
    case False
    then have "bulk_loop env cfg idx ds (?B, ?I, added) ?hk = (Inr st', h')"
      using Cons.prems(3) assms(1) unfolding bulk_loop_step Let_def
      by (auto split: sum.splits if_splits)
    from Cons.IH [OF len ok this]
    obtain new where new: "h' = ?hk @ new"
      "concat (map write_pairs new) @ zip (fst st') (fst (snd st')) = zip ?B ?I @ map batched_pair ds"
      by blast
    have "h' = h @ (pre @ new)" using new(1) pre(1) by simp
    moreover have "concat (map write_pairs (pre @ new)) @ zip (fst st') (fst (snd st'))
        = zip batch ids @ map batched_pair (d # ds)"
      using new(2) Cons.prems(1) by (simp add: pre(2))
    ultimately show ?thesis by blast
  qed
qed

lemma create_index_no_pairs:
  "\<exists>new. snd (create_index_if_not_exists env name D h) = h @ new
     \<and> concat (map write_pairs new) = [] \<and> list_all aligned new"
  by (auto simp: create_index_if_not_exists_def comp_defs split: sum.splits)

text \<open>
  The pairs written by a bulk ingestion call, whatever the engine replies and wherever the
  call stops, read against the pairs the loop batches.
\<close>

lemma bulk_pairs_written:
  "subseq (concat (map write_pairs (drop (length h) (snd (add_documents_bulk env cfg payload h)))))
     (map batched_pair (documents payload))
   \<and> list_all aligned (drop (length h) (snd (add_documents_bulk env cfg payload h)))
   \<and> (\<forall>r. documents payload \<noteq> [] \<and> fst (add_documents_bulk env cfg payload h) = Inr r \<longrightarrow>
         r = JObj [(''status'', JStr ''ok''),
                   (''added'', JInt (int (length (concat (map write_pairs
                      (drop (length h) (snd (add_documents_bulk env cfg payload h))))))))])
   \<and> (\<forall>r. (\<forall>h' i. es_exists env h' (bulk_index payload) i = Inr False)
          \<and> fst (add_documents_bulk env cfg payload h) = Inr r \<longrightarrow>
         concat (map write_pairs (drop (length h) (snd (add_documents_bulk env cfg payload h))))
           = map batched_pair (documents payload))"
proof -
  let ?idx = "bulk_index payload"
  let ?ns = "NewStore (ES_URL cfg) ?idx"
  let ?out = "add_documents_bulk env cfg payload h"
  let ?docs = "documents payload"
  let ?new = "drop (length h) (snd ?out)"
  let ?goal = "\<lambda>new r. subseq (concat (map write_pairs new)) (map batched_pair ?docs)
      \<and> list_all aligned new
      \<and> (?docs \<noteq> [] \<and> (\<exists>v. r = Inr v) \<longrightarrow>
           r = Inr (JObj [(''status'', JStr ''ok''),
                     (''added'', JInt (int (length (concat (map write_pairs new)))))]))
      \<and> ((\<forall>h' i. es_exists env h' ?idx i = Inr False) \<and> (\<exists>v. r = Inr v) \<longrightarrow>
           concat (map write_pairs new) = map batched_pair ?docs)"
  have nsw: "write_pairs ?ns = []" "aligned ?ns" by simp_all
  have main: "?goal ?new (fst ?out)"
  proof (cases "new_store env h (ES_URL cfg) ?idx")
    case (Inl e)
    then have "?out = (Inl e, h @ [?ns])"
      by (simp add: add_documents_bulk_def comp_defs)
    then show ?thesis by simp
  next
    case ns: (Inr u)
    obtain r1 h1 where c: "create_index_if_not_exists env ?idx (EMBED_DIM cfg) (h @ [?ns]) = (r1, h1)"
      by (cases "create_index_if_not_exists env ?idx (EMBED_DIM cfg) (h @ [?ns])") auto
    obtain n1 where n1: "h1 = (h @ [?ns]) @ n1" "concat (map write_pairs n1) = []" "list_all aligned n1"
      using create_index_no_pairs [of env ?idx "EMBED_DIM cfg" "h @ [?ns]"] c by auto
    show ?thesis
    proof (cases r1)
      case (Inl e)
      then have "?out = (Inl e, h @ ?ns # n1)"
        using ns c n1(1) by (simp add: add_documents_bulk_def comp_defs)
      then show ?thesis using n1(3) by (simp add: n1(2))
    next
      case r1: (Inr u1)
      show ?thesis
      proof (cases "?docs = []")
        case True
        then have "?out = (Inr (JObj [(''status'', JStr ''no_docs'')]), h @ ?ns # n1)"
          using ns c n1(1) r1 by (simp add: add_documents_bulk_def comp_defs)
        then show ?thesis using n1(3) True by (simp add: n1(2))
      next
        case ne: False
        obtain r2 h2 where l: "bulk_loop env cfg ?idx ?docs ([], [], 0) h1 = (r2, h2)"
          by (cases "bulk_loop env cfg ?idx ?docs ([], [], 0) h1") auto
        have "loop_post (zip [] [] @ map batched_pair ?docs) 0 h1
                (bulk_loop env cfg ?idx ?docs ([], [], 0) h1)"
          by (rule bulk_loop_post) (simp_all add: id_list_ok_def)
        then have "loop_post (map batched_pair ?docs) 0 h1 (r2, h2)"
          by (simp add: l)
        then obtain n2 where n2: "h2 = h1 @ n2" "list_all aligned n2"
          and p2: "(case r2 of
             Inl e \<Rightarrow> subseq (concat (map write_pairs n2)) (map batched_pair ?docs)
           | Inr st' \<Rightarrow>
               length (fst st') = length (fst (snd st')) \<and> id_list_ok (fst (snd st'))
               \<and> subseq (concat (map write_pairs n2) @ zip (fst st') (fst (snd st')))
                    (map batched_pair ?docs)
               \<and> snd (snd st') = 0 + int (length (concat (map write_pairs n2))))"
          unfolding loop_post_def fst_conv snd_conv by blast
        show ?thesis
        proof (cases r2)
          case (Inl e)
          then have "?out = (Inl e, h @ ?ns # n1 @ n2)"
            using ns c n1(1) r1 ne l n2(1) by (simp add: add_documents_bulk_def comp_defs)
          then show ?thesis using n1(3) n2(2) p2 Inl by (simp add: n1(2))
        next
          case st: (Inr st')
          let ?b = "fst st'" and ?i = "fst (snd st')"
          let ?W = "AddDocuments ?idx ?b (ids_arg ?i)"
          have len: "length ?b = length ?i" and ok: "id_list_ok ?i"
            and sub: "subseq (concat (map write_pairs n2) @ zip ?b ?i) (map batched_pair ?docs)"
            and cnt: "snd (snd st') = int (length (concat (map write_pairs n2)))"
            using p2 st by simp_all
          have w: "write_pairs ?W = zip ?b ?i"
            using ids_arg_pairs [OF ok len] by simp
          have all: "(\<forall>h' i. es_exists env h' ?idx i = Inr False) \<longrightarrow>
              concat (map write_pairs n2) @ zip ?b ?i = map batched_pair ?docs"
          proof
            assume a: "\<forall>h' i. es_exists env h' ?idx i = Inr False"
            have "bulk_loop env cfg ?idx ?docs ([], [], 0) h1 = (Inr st', h1 @ n2)"
              using l st n2(1) by simp
            from bulk_loop_all_kept [OF a _ _ this]
            obtain n2' where "h1 @ n2 = h1 @ n2'"
              "concat (map write_pairs n2') @ zip ?b ?i = zip [] [] @ map batched_pair ?docs"
              by (auto simp: id_list_ok_def)
            then show "concat (map write_pairs n2) @ zip ?b ?i = map batched_pair ?docs"
              by simp
          qed
          show ?thesis
          proof (cases "?b = []")
            case True
            then have "?out = (Inr (JObj [(''status'', JStr ''ok''), (''added'', JInt (snd (snd st')))]),
                               h @ ?ns # n1 @ n2)"
              using ns c n1(1) r1 ne l n2(1) st
              by (simp add: add_documents_bulk_def comp_defs Let_def)
            then show ?thesis using n1(3) n2(2) sub cnt all True by (simp add: n1(2))
          next
            case False
            show ?thesis
            proof (cases "add_documents env h2 ?idx ?b (ids_arg ?i)")
              case (Inl e)
              then have "?out = (Inl e, h @ ?ns # n1 @ n2 @ [?W])"
                using ns c n1(1) r1 ne l n2(1) st False
                by (simp add: add_documents_bulk_def comp_defs Let_def)
              then show ?thesis using n1(3) n2(2) sub ids_arg_aligned [OF len]
                by (simp add: n1(2) w nsw del: write_pairs.simps aligned.simps)
            next
              case (Inr u2)
              then have "?out = (Inr (JObj [(''status'', JStr ''ok''),
                                   (''added'', JInt (snd (snd st') + int (length ?b)))]),
                                 h @ ?ns # n1 @ n2 @ [?W])"
                using ns c n1(1) r1 ne l n2(1) st False
                by (simp add: add_documents_bulk_def comp_defs Let_def)
              then show ?thesis using n1(3) n2(2) sub ids_arg_aligned [OF len] cnt all len
                by (simp add: n1(2) w nsw del: write_pairs.simps aligned.simps)
            qed
          qed
        qed
      qed
    qed
  qed
  then show ?thesis by auto
qed

lemma batched_is_submitted:
  assumes "\<forall>d \<in> set docs. doc_id d \<noteq> Some []"
  shows "map batched_pair docs = map submitted_pair docs"
proof -
  have "batched_pair d = submitted_pair d" if "d \<in> set docs" for d
  proof (cases "doc_id d")
    case None
    then show ?thesis by (simp add: batched_pair_def submitted_pair_def truthy_def)
  next
    case (Some i)
    then have "i \<noteq> []" using assms that by auto
    then show ?thesis using Some by (simp add: batched_pair_def submitted_pair_def truthy_def)
  qed
  then show ?thesis by simp
qed

lemma sim_bulk_three:
  "add_documents_bulk ((sim_env ''8.11.0'' (sim_search [] True))\<lparr>es_exists := (\<lambda>h idx i. Inr False)\<rparr>)
      (default_config\<lparr>BULK_BATCH_SIZE := 2\<rparr>) bulk_three [] =
     (Inr (JObj [(''status'', JStr ''ok''), (''added'', JInt 3)]),
      [NewStore ''http://elasticsearch:9200'' ''docs'', IndicesExists ''docs'', Info,
       IndicesCreate ''docs'' (mapping_template (dense_vector 768)),
       Exists ''docs'' ''d1'',
       AddDocuments ''docs''
         [Document ''cats purr'' [(''lang'', JStr ''en'')], Document ''dogs bark'' []]
         (Some [Some ''d1'', None]),
       Exists ''docs'' ''d3'',
       AddDocuments ''docs'' [Document ''cows moo'' []] (Some [Some ''d3''])])"
  by (simp add: add_documents_bulk_def create_index_if_not_exists_def comp_defs sim_env_def
        default_config_def bulk_three_def py_int_examples truthy_def clean_metadata_def
        ids_arg_def Let_def)

lemma sim_bulk_empty_id:
  "add_documents_bulk (sim_env ''8.11.0'' (sim_search [] True)) default_config bulk_empty_id [] =
     (Inr (JObj [(''status'', JStr ''ok''), (''added'', JInt 1)]),
      [NewStore ''http://elasticsearch:9200'' ''docs'', IndicesExists ''docs'', Info,
       IndicesCreate ''docs'' (mapping_template (dense_vector 768)),
       AddDocuments ''docs'' [Document ''cats purr'' [(''lang'', JStr ''en'')]] None])"
  by (simp add: add_documents_bulk_def create_index_if_not_exists_def comp_defs sim_env_def
        default_config_def bulk_empty_id_def py_int_examples truthy_def clean_metadata_def
        ids_arg_def Let_def)

text \<open>
  C5, as amended. In every bulk ingestion call, whatever the engine replies and wherever
  the call stops, each document written to the store is paired with its own submitted id
  when that id is not the empty string, and with no id (the store assigns one) when the
  submitted id is absent or the empty string: the (document, id) pairs written, in the
  order of the writes, are a subsequence of the pairs the loop batches, one per submitted
  record in submission order, and, when no submitted id is the empty string, of the
  records' own (document, id) pairs as submitted. Every store write is aligned (its id
  list, when it has one, is as long as its document list), so no document is written under
  another document's id. When the call returns for a non-empty list, \<open>added\<close> is the
  number of pairs written; and when the engine reports no document as existing, the pairs
  written by a call that returns are those of all the submitted records.
\<close>

theorem bulk_ids_travel_with_documents:
  "subseq (concat (map write_pairs (drop (length h) (snd (add_documents_bulk env cfg payload h)))))
     (map (\<lambda>d. (fst (submitted_pair d), if truthy (doc_id d) then doc_id d else None))
        (documents payload))
   \<and> ((\<forall>d \<in> set (documents payload). doc_id d \<noteq> Some []) \<longrightarrow>
        subseq (concat (map write_pairs (drop (length h) (snd (add_documents_bulk env cfg payload h)))))
          (map submitted_pair (documents payload)))
   \<and> list_all aligned (drop (length h) (snd (add_documents_bulk env cfg payload h)))
   \<and> (\<forall>r. documents payload \<noteq> [] \<and> fst (add_documents_bulk env cfg payload h) = Inr r \<longrightarrow>
         r = JObj [(''status'', JStr ''ok''),
                   (''added'', JInt (int (length (concat (map write_pairs
                      (drop (length h) (snd (add_documents_bulk env cfg payload h))))))))])
   \<and> (\<forall>r. (\<forall>h' i. es_exists env h' (bulk_index payload) i = Inr False)
          \<and> (\<forall>d \<in> set (documents payload). doc_id d \<noteq> Some [])
          \<and> fst (add_documents_bulk env cfg payload h) = Inr r \<longrightarrow>
         concat (map write_pairs (drop (length h) (snd (add_documents_bulk env cfg payload h))))
           = map submitted_pair (documents payload))"
proof -
  have b: "(\<lambda>d. (fst (submitted_pair d), if truthy (doc_id d) then doc_id d else None)) = batched_pair"
    by (rule ext) (simp add: batched_pair_def submitted_pair_def)
  let ?W = "concat (map write_pairs (drop (length h) (snd (add_documents_bulk env cfg payload h))))"
  let ?docs = "documents payload"
  have w: "subseq ?W (map batched_pair ?docs)"
    and a: "list_all aligned (drop (length h) (snd (add_documents_bulk env cfg payload h)))"
    and c: "\<forall>r. ?docs \<noteq> [] \<and> fst (add_documents_bulk env cfg payload h) = Inr r \<longrightarrow>
         r = JObj [(''status'', JStr ''ok''), (''added'', JInt (int (length ?W)))]"
    and k: "\<forall>r. (\<forall>h' i. es_exists env h' (bulk_index payload) i = Inr False)
          \<and> fst (add_documents_bulk env cfg payload h) = Inr r \<longrightarrow>
         ?W = map batched_pair ?docs"
    using bulk_pairs_written [of h env cfg payload] by blast+
  have s: "(\<forall>d \<in> set ?docs. doc_id d \<noteq> Some []) \<longrightarrow> subseq ?W (map submitted_pair ?docs)"
  proof
    assume "\<forall>d \<in> set ?docs. doc_id d \<noteq> Some []"
    then have "map batched_pair ?docs = map submitted_pair ?docs"
      by (rule batched_is_submitted)
    with w show "subseq ?W (map submitted_pair ?docs)" by simp
  qed
  have e: "\<forall>r. (\<forall>h' i. es_exists env h' (bulk_index payload) i = Inr False)
          \<and> (\<forall>d \<in> set ?docs. doc_id d \<noteq> Some [])
          \<and> fst (add_documents_bulk env cfg payload h) = Inr r \<longrightarrow>
         ?W = map submitted_pair ?docs"
  proof (intro allI impI)
    fix r
    assume h: "(\<forall>h' i. es_exists env h' (bulk_index payload) i = Inr False)
          \<and> (\<forall>d \<in> set ?docs. doc_id d \<noteq> Some [])
          \<and> fst (add_documents_bulk env cfg payload h) = Inr r"
    then have "?W = map batched_pair ?docs" using k by blast
    moreover have "map batched_pair ?docs = map submitted_pair ?docs"
      using h by (intro batched_is_submitted) blast
    ultimately show "?W = map submitted_pair ?docs" by simp
  qed
  show ?thesis
    unfolding b using w s a c e by blast
qed

theorem bulk_ids_travel_with_documents_witness:
  "fst (add_documents_bulk ((sim_env ''8.11.0'' (sim_search [] True))\<lparr>es_exists := (\<lambda>h idx i. Inr False)\<rparr>)
      (default_config\<lparr>BULK_BATCH_SIZE := 2\<rparr>) bulk_three []) =
     Inr (JObj [(''status'', JStr ''ok''), (''added'', JInt 3)])
   \<and> concat (map write_pairs
       [NewStore ''http://elasticsearch:9200'' ''docs'', IndicesExists ''docs'', Info,
        IndicesCreate ''docs'' (mapping_template (dense_vector 768)),
        Exists ''docs'' ''d1'',
        AddDocuments ''docs''
          [Document ''cats purr'' [(''lang'', JStr ''en'')], Document ''dogs bark'' []]
          (Some [Some ''d1'', None]),
        Exists ''docs'' ''d3'',
        AddDocuments ''docs'' [Document ''cows moo'' []] (Some [Some ''d3''])]) =
     map submitted_pair (documents bulk_three)
   \<and> map submitted_pair (documents bulk_three) =
     [(Document ''cats purr'' [(''lang'', JStr ''en'')], Some ''d1''),
      (Document ''dogs bark'' [], None),
      (Document ''cows moo'' [], Some ''d3'')]"
proof -
  have ne: "documents bulk_three \<noteq> []"
    by (simp add: bulk_three_def)
  have ids: "\<forall>d \<in> set (documents bulk_three). doc_id d \<noteq> Some []"
    by (simp add: bulk_three_def)
  have ex: "\<forall>h' i. es_exists ((sim_env ''8.11.0'' (sim_search [] True))\<lparr>es_exists := (\<lambda>h idx i. Inr False)\<rparr>)
               h' (bulk_index bulk_three) i = Inr False"
    by simp
  have sp: "map submitted_pair (documents bulk_three) =
     [(Document ''cats purr'' [(''lang'', JStr ''en'')], Some ''d1''),
      (Document ''dogs bark'' [], None),
      (Document ''cows moo'' [], Some ''d3'')]"
    by (simp add: bulk_three_def submitted_pair_def clean_metadata_def)
  have "concat (map write_pairs (drop (length ([] :: event list))
          (snd (add_documents_bulk ((sim_env ''8.11.0'' (sim_search [] True))\<lparr>es_exists := (\<lambda>h idx i. Inr False)\<rparr>)
             (default_config\<lparr>BULK_BATCH_SIZE := 2\<rparr>) bulk_three []))))
        = map submitted_pair (documents bulk_three)"
    using bulk_ids_travel_with_documents
      [where env = "(sim_env ''8.11.0'' (sim_search [] True))\<lparr>es_exists := (\<lambda>h idx i. Inr False)\<rparr>"
         and cfg = "default_config\<lparr>BULK_BATCH_SIZE := 2\<rparr>" and payload = bulk_three and h = "[]"]
      ne ids ex
    by (simp add: sim_bulk_three)
  then show ?thesis
    by (simp add: sim_bulk_three sp)
qed

text \<open>
  A record submitted with the empty string as id is written without an id: the pair
  written is not the record's own (document, id) pair.
\<close>

theorem bulk_empty_id_counterexample:
  "add_documents_bulk (sim_env ''8.11.0'' (sim_search [] True)) default_config bulk_empty_id [] =
     (Inr (JObj [(''status'', JStr ''ok''), (''added'', JInt 1)]),
      [NewStore ''http://elasticsearch:9200'' ''docs'', IndicesExists ''docs'', Info,
       IndicesCreate ''docs'' (mapping_template (dense_vector 768)),
       AddDocuments ''docs'' [Document ''cats purr'' [(''lang'', JStr ''en'')]] None])
   \<and> map submitted_pair (documents bulk_empty_id) =
       [(Document ''cats purr'' [(''lang'', JStr ''en'')], Some [])]
   \<and> concat (map write_pairs
        (snd (add_documents_bulk (sim_env ''8.11.0'' (sim_search [] True)) default_config bulk_empty_id []))) =
       [(Document ''cats purr'' [(''lang'', JStr ''en'')], None)]
   \<and> \<not> subseq
        (concat (map write_pairs
          (snd (add_documents_bulk (sim_env ''8.11.0'' (sim_search [] True)) default_config bulk_empty_id []))))
        (map submitted_pair (documents bulk_empty_id))"
proof -
  have sp: "map submitted_pair (documents bulk_empty_id) =
       [(Document ''cats purr'' [(''lang'', JStr ''en'')], Some [])]"
    by (simp add: bulk_empty_id_def submitted_pair_def clean_metadata_def)
  show ?thesis
    by (simp add: sim_bulk_empty_id sp)
qed

end
